theory Spec2Isabelle
  imports Main
begin

section \<open>Configuration read from the environment\<close>

text \<open>
  Both \<open>UserMigrator\<close> (migrate.js) and \<open>UserRemover\<close> (remove-user.js) read their
  configuration in the constructor:
  \<^verbatim>\<open>
    this.sourceUserId = parseInt(process.env.SOURCE_USER_ID) || 41;
    this.targetUserId = parseInt(process.env.TARGET_USER_ID) || 358;
    this.dryRun = process.env.DRY_RUN === 'true';
  \<close>
  \<open>process.env\<close> is a map from names to strings; an unset variable reads as
  \<open>undefined\<close>, here \<open>None\<close>.
\<close>

type_synonym env = "string \<Rightarrow> string option"

text \<open>
  ECMAScript \<open>parseInt(string)\<close> with no radix: the argument is converted to a string
  (\<open>undefined\<close> becomes the text "undefined"), leading white space is dropped, one sign
  is read, a prefix \<open>0x\<close> or \<open>0X\<close> selects radix 16 (radix 10 otherwise), and the
  longest run of digits of that radix is the value; an empty run gives NaN, here
  \<open>None\<close>. Strings are byte strings here, in UTF-8: white space is the ASCII
  characters TAB, LF, VT, FF, CR and SP (\<open>is_ws\<close>) and the encodings of U+00A0,
  U+1680, U+2000 to U+200A, U+2028, U+2029, U+202F, U+205F, U+3000 and U+FEFF
  (\<open>is_ws_bytes\<close>). The value is the exact integer (a JavaScript number rounds it
  above \<open>2 ^ 53\<close>; rounding never turns a nonzero value into zero).
\<close>

definition is_ws :: "char \<Rightarrow> bool" where
  "is_ws c = (c \<in> set [CHR '' '', CHR 0x09, CHR 0x0A, CHR 0x0B, CHR 0x0C, CHR 0x0D])"

definition is_ws_bytes :: "string \<Rightarrow> bool" where
  "is_ws_bytes bs =
     (bs \<in> set
        [ [CHR 0xC2, CHR 0xA0], [CHR 0xE1, CHR 0x9A, CHR 0x80],
         [CHR 0xE2, CHR 0x80, CHR 0x80], [CHR 0xE2, CHR 0x80, CHR 0x81],
         [CHR 0xE2, CHR 0x80, CHR 0x82], [CHR 0xE2, CHR 0x80, CHR 0x83],
         [CHR 0xE2, CHR 0x80, CHR 0x84], [CHR 0xE2, CHR 0x80, CHR 0x85],
         [CHR 0xE2, CHR 0x80, CHR 0x86], [CHR 0xE2, CHR 0x80, CHR 0x87],
         [CHR 0xE2, CHR 0x80, CHR 0x88], [CHR 0xE2, CHR 0x80, CHR 0x89],
         [CHR 0xE2, CHR 0x80, CHR 0x8A], [CHR 0xE2, CHR 0x80, CHR 0xA8],
         [CHR 0xE2, CHR 0x80, CHR 0xA9], [CHR 0xE2, CHR 0x80, CHR 0xAF],
         [CHR 0xE2, CHR 0x81, CHR 0x9F], [CHR 0xE3, CHR 0x80, CHR 0x80],
         [CHR 0xEF, CHR 0xBB, CHR 0xBF] ])"

fun strip_ws :: "string \<Rightarrow> string" where
  "strip_ws [] = []"
| "strip_ws (c # cs) =
     (if is_ws c then strip_ws cs
      else if is_ws_bytes (c # take 1 cs) then strip_ws (drop 1 cs)
      else if is_ws_bytes (c # take 2 cs) then strip_ws (drop 2 cs)
      else c # cs)"

definition digit_val :: "char \<Rightarrow> nat option" where
  "digit_val c =
     (let n = of_char c :: nat in
      if 48 \<le> n \<and> n \<le> 57 then Some (n - 48)
      else if 97 \<le> n \<and> n \<le> 102 then Some (n - 87)
      else if 65 \<le> n \<and> n \<le> 70 then Some (n - 55)
      else None)"

definition is_digit :: "nat \<Rightarrow> char \<Rightarrow> bool" where
  "is_digit radix c = (case digit_val c of None \<Rightarrow> False | Some d \<Rightarrow> d < radix)"

definition digits_value :: "nat \<Rightarrow> string \<Rightarrow> nat" where
  "digits_value radix ds =
     foldl (\<lambda>acc c. acc * radix + (case digit_val c of None \<Rightarrow> 0 | Some d \<Rightarrow> d)) 0 ds"

definition parseInt_string :: "string \<Rightarrow> int option" where
  "parseInt_string s =
     (let s1 = strip_ws s;
          neg = (s1 \<noteq> [] \<and> hd s1 = CHR ''-'');
          s2 = (if s1 \<noteq> [] \<and> (hd s1 = CHR ''+'' \<or> hd s1 = CHR ''-'') then tl s1 else s1);
          hex = (take 2 s2 = ''0x'' \<or> take 2 s2 = ''0X'');
          radix = (if hex then 16 else 10);
          s3 = (if hex then drop 2 s2 else s2);
          z = takeWhile (is_digit radix) s3
      in if z = [] then None
         else Some ((if neg then - 1 else 1) * int (digits_value radix z)))"

definition parseInt :: "string option \<Rightarrow> int option" where
  "parseInt v = parseInt_string (case v of None \<Rightarrow> ''undefined'' | Some s \<Rightarrow> s)"

text \<open>
  \<open>parseInt(x) || d\<close>: NaN and zero are falsy, so the default \<open>d\<close> is taken for them.
\<close>

definition or_default :: "int option \<Rightarrow> int \<Rightarrow> int" where
  "or_default n d = (case n of None \<Rightarrow> d | Some k \<Rightarrow> if k = 0 then d else k)"

record UserMigrator =
  sourceUserId :: int
  targetUserId :: int
  dryRun :: bool

definition new_UserMigrator :: "env \<Rightarrow> UserMigrator" where
  "new_UserMigrator e =
     \<lparr> sourceUserId = or_default (parseInt (e ''SOURCE_USER_ID'')) 41,
       targetUserId = or_default (parseInt (e ''TARGET_USER_ID'')) 358,
       dryRun = (e ''DRY_RUN'' = Some ''true'') \<rparr>"

record UserRemover =
  removerSourceUserId :: int
  removerDryRun :: bool
  migrationTables :: "(string \<times> string) list"

text \<open>
  config/tables.js: \<open>MIGRATION_TABLES\<close>, the pairs \<open>{table, column}\<close> that
  \<open>getMigrationTables()\<close> returns.
\<close>

definition MIGRATION_TABLES :: "(string \<times> string) list" where
  "MIGRATION_TABLES = [(''content'', ''user_id''), (''media'', ''user_id'')]"

definition new_UserRemover :: "env \<Rightarrow> UserRemover" where
  "new_UserRemover e =
     \<lparr> removerSourceUserId = or_default (parseInt (e ''SOURCE_USER_ID'')) 41,
       removerDryRun = (e ''DRY_RUN'' = Some ''true''),
       migrationTables = MIGRATION_TABLES \<rparr>"

section \<open>The data store\<close>

text \<open>
  The program talks to the database through a mysql2 connection pool. A row is a list
  of (column, value) pairs; only integer columns matter here (identifiers). For each
  table the store says whether a read and whether a write on it is accepted: a
  statement on a table that does not exist, or that the store refuses (privileges,
  a constraint, a lock time-out, a name that needs quoting), raises a query error and
  changes nothing.

  Two channels exist in the source. \<open>pool.execute(sql, params)\<close> runs one statement on
  a connection that the pool picks for that statement alone, in autocommit mode: a
  write is committed when the call returns. \<open>pool.getConnection()\<close> checks one
  connection out; \<open>beginTransaction\<close>, \<open>commit\<close> and \<open>rollback\<close> act on that
  connection's transaction, which contains the statements executed on that connection.
  Every statement of migrate.js and remove-user.js is issued with \<open>this.pool.execute\<close>;
  none is issued on the checked-out connection. The transaction of the checked-out
  connection therefore never holds a statement, and the model keeps of it only whether
  it is open.

  Other sessions may write between two statements of a run: \<open>concurrent\<close> is the
  schedule of their insertions, one list per coming pool statement (the empty schedule
  is a store used by this run alone).

  \<open>trace\<close> records, in order, what the run did to its collaborators: statements,
  connection and transaction calls, and files written with \<open>fs.writeFileSync\<close>
  (file names carry \<open>Date.now()\<close> and are left out; writing a file and the connection
  calls are taken to succeed).
\<close>

type_synonym row = "(string \<times> int) list"

record table =
  tname :: string
  readable :: bool
  writable :: bool
  rows :: "row list"

datatype stmt =
    SelectById string int
  | CountWhere string string int
  | UpdateWhere string string int int
  | DeleteById string int
  | SelectUserIdColumns

datatype artifact = UserBackup int row | RemovalLog

datatype event =
    PoolExecute stmt
  | GetConnection
  | BeginTransaction
  | Commit
  | Rollback
  | Release
  | PoolEnd
  | WriteFile artifact

text \<open>
  The source throws plain \<open>Error\<close> objects, told apart by their message, and lets
  the errors of mysql2 pass; \<open>error\<close> has one constructor for each: a query on a
  table that does not exist or that the store refuses, the TypeError of
  \<open>findTablesWithUserId\<close>, "source user not found" and "target user not found"
  (\<open>validatePrerequisites\<close>), "not safe to remove" with the number of references
  (\<open>run\<close>), "user not found for backup" (\<open>createUserBackup\<close>) and "no user found
  with this id" (\<open>removeUserRecord\<close>).
\<close>

datatype error =
    NoSuchTable string
  | AccessDenied string
  | TypeError
  | SourceUserNotFound int
  | TargetUserNotFound int
  | NotSafeToRemove int
  | UserNotFoundForBackup int
  | NoUserDeleted int

record world =
  tables :: "table list"
  catalog :: "(string \<times> string) list"
  concurrent :: "(string \<times> row) list list"
  tx_open :: bool
  trace :: "event list"

definition find_table :: "string \<Rightarrow> table list \<Rightarrow> table option" where
  "find_table n ts = find (\<lambda>t. tname t = n) ts"

definition matching :: "string \<Rightarrow> int \<Rightarrow> row list \<Rightarrow> row list" where
  "matching c v rs = filter (\<lambda>r. map_of r c = Some v) rs"

text \<open>The number of rows of table \<open>n\<close> whose column \<open>c\<close> is \<open>v\<close> (0 for a missing table).\<close>

definition references :: "table list \<Rightarrow> string \<Rightarrow> string \<Rightarrow> int \<Rightarrow> nat" where
  "references ts n c v =
     (case find_table n ts of None \<Rightarrow> 0 | Some t \<Rightarrow> length (matching c v (rows t)))"

definition insert_row :: "table list \<Rightarrow> string \<times> row \<Rightarrow> table list" where
  "insert_row ts nr =
     map (\<lambda>t. if tname t = fst nr then t\<lparr>rows := rows t @ [snd nr]\<rparr> else t) ts"

text \<open>What other sessions do before the coming statement of this run.\<close>

definition arrive :: "world \<Rightarrow> world" where
  "arrive w =
     (case concurrent w of
        [] \<Rightarrow> w
      | ins # rest \<Rightarrow> w\<lparr>tables := foldl insert_row (tables w) ins, concurrent := rest\<rparr>)"

definition issue :: "stmt \<Rightarrow> world \<Rightarrow> world" where
  "issue s w = (arrive w)\<lparr>trace := trace w @ [PoolExecute s]\<rparr>"

definition emit :: "event \<Rightarrow> world \<Rightarrow> world" where
  "emit ev w = w\<lparr>trace := trace w @ [ev]\<rparr>"

fun set_col :: "string \<Rightarrow> int \<Rightarrow> row \<Rightarrow> row" where
  "set_col c v [] = [(c, v)]"
| "set_col c v ((k, x) # r) = (if k = c then (k, v) # r else (k, x) # set_col c v r)"

text \<open>\<open>SELECT * FROM t WHERE id = ?\<close>\<close>

definition pool_select :: "string \<Rightarrow> int \<Rightarrow> world \<Rightarrow> (error + row list) \<times> world" where
  "pool_select n v w =
     (let w1 = issue (SelectById n v) w in
      case find_table n (tables w1) of
        None \<Rightarrow> (Inl (NoSuchTable n), w1)
      | Some t \<Rightarrow>
          if readable t then (Inr (matching ''id'' v (rows t)), w1)
          else (Inl (AccessDenied n), w1))"

text \<open>\<open>SELECT COUNT(*) as count FROM t WHERE c = ?\<close>\<close>

definition pool_count :: "string \<Rightarrow> string \<Rightarrow> int \<Rightarrow> world \<Rightarrow> (error + nat) \<times> world" where
  "pool_count n c v w =
     (let w1 = issue (CountWhere n c v) w in
      case find_table n (tables w1) of
        None \<Rightarrow> (Inl (NoSuchTable n), w1)
      | Some t \<Rightarrow>
          if readable t then (Inr (length (matching c v (rows t))), w1)
          else (Inl (AccessDenied n), w1))"

text \<open>
  \<open>UPDATE t SET c = ? WHERE c = ?\<close> with parameters \<open>[new, old]\<close>. The result is
  \<open>affectedRows\<close>, the number of rows the \<open>WHERE\<close> clause matched (mysql2 connects
  with the \<open>FOUND_ROWS\<close> flag). A statement that writes also reads the column of its
  \<open>WHERE\<close> clause, so the table has to accept both.
\<close>

definition pool_update ::
  "string \<Rightarrow> string \<Rightarrow> int \<Rightarrow> int \<Rightarrow> world \<Rightarrow> (error + nat) \<times> world" where
  "pool_update n c new old w =
     (let w1 = issue (UpdateWhere n c new old) w in
      case find_table n (tables w1) of
        None \<Rightarrow> (Inl (NoSuchTable n), w1)
      | Some t \<Rightarrow>
          if readable t \<and> writable t then
            (Inr (length (matching c old (rows t))),
             w1\<lparr>tables :=
                  map (\<lambda>u. if tname u = n
                           then u\<lparr>rows := map (\<lambda>r. if map_of r c = Some old
                                                      then set_col c new r else r) (rows u)\<rparr>
                           else u) (tables w1)\<rparr>)
          else (Inl (AccessDenied n), w1))"

text \<open>\<open>DELETE FROM t WHERE id = ?\<close>; the result is \<open>affectedRows\<close>.\<close>

definition pool_delete :: "string \<Rightarrow> int \<Rightarrow> world \<Rightarrow> (error + nat) \<times> world" where
  "pool_delete n v w =
     (let w1 = issue (DeleteById n v) w in
      case find_table n (tables w1) of
        None \<Rightarrow> (Inl (NoSuchTable n), w1)
      | Some t \<Rightarrow>
          if readable t \<and> writable t then
            (Inr (length (matching ''id'' v (rows t))),
             w1\<lparr>tables :=
                  map (\<lambda>u. if tname u = n
                           then u\<lparr>rows := filter (\<lambda>r. map_of r ''id'' \<noteq> Some v) (rows u)\<rparr>
                           else u) (tables w1)\<rparr>)
          else (Inl (AccessDenied n), w1))"

text \<open>
  The calls on the checked-out connection. No statement of the program runs on it, so
  ending its transaction either way leaves \<open>tables\<close> as they are.
\<close>

definition getConnection :: "world \<Rightarrow> world" where
  "getConnection w = emit GetConnection w"

definition beginTransaction :: "world \<Rightarrow> world" where
  "beginTransaction w = (emit BeginTransaction w)\<lparr>tx_open := True\<rparr>"

definition commit :: "world \<Rightarrow> world" where
  "commit w = (emit Commit w)\<lparr>tx_open := False\<rparr>"

definition rollback :: "world \<Rightarrow> world" where
  "rollback w = (emit Rollback w)\<lparr>tx_open := False\<rparr>"

definition release :: "world \<Rightarrow> world" where
  "release w = emit Release w"

definition writeFileSync :: "artifact \<Rightarrow> world \<Rightarrow> world" where
  "writeFileSync f w = emit (WriteFile f) w"

text \<open>
  A JavaScript object used as a dictionary: \<open>obj[k] = v\<close> replaces the value of an
  existing key where it stands and appends a new key. (Keys that are array indices
  are listed first by \<open>Object.entries\<close>, see \<open>object_entries\<close> below; the objects
  built with \<open>assign\<close> are only looked up by key or summed over.)
\<close>

fun assign :: "string \<Rightarrow> 'v \<Rightarrow> (string \<times> 'v) list \<Rightarrow> (string \<times> 'v) list" where
  "assign k v [] = [(k, v)]"
| "assign k v ((k', v') # kvs) =
     (if k' = k then (k, v) # kvs else (k', v') # assign k v kvs)"

section \<open>remove-user.js: UserRemover\<close>

text \<open>
  The remover that takes its tables from config/tables.js
  (\<open>this.migrationTables = getMigrationTables()\<close>). Its log entries are left out:
  \<open>log\<close> has no influence on what the methods do or return.
\<close>

record safety_entry =
  column :: string
  remainingReferences :: int
  count_error :: "error option"

record safety_result =
  isSafe :: bool
  totalReferences :: int
  safetyCheck :: "(string \<times> safety_entry) list"

text \<open>
  The loop of \<open>verifySafeToRemove\<close> over \<open>this.migrationTables\<close>, with the two
  variables it updates, \<open>safetyCheck\<close> and \<open>totalReferences\<close>. The inner
  \<open>try\<close>/\<open>catch\<close> records a failed count as \<open>remainingReferences: -1\<close> and goes on
  to the next table without adding anything to the total.
\<close>

fun safetyLoop ::
  "int \<Rightarrow> (string \<times> string) list \<Rightarrow> (string \<times> safety_entry) list \<Rightarrow> int \<Rightarrow> world
     \<Rightarrow> ((string \<times> safety_entry) list \<times> int) \<times> world" where
  "safetyLoop u [] sc tot w = ((sc, tot), w)"
| "safetyLoop u ((tableName, userIdColumn) # rest) sc tot w =
     (case pool_count tableName userIdColumn u w of
        (Inr n, w1) \<Rightarrow>
          safetyLoop u rest
            (assign tableName
               \<lparr>column = userIdColumn, remainingReferences = int n, count_error = None\<rparr> sc)
            (tot + int n) w1
      | (Inl e, w1) \<Rightarrow>
          safetyLoop u rest
            (assign tableName
               \<lparr>column = userIdColumn, remainingReferences = - 1, count_error = Some e\<rparr> sc)
            tot w1)"

definition verifySafeToRemove :: "UserRemover \<Rightarrow> world \<Rightarrow> safety_result \<times> world" where
  "verifySafeToRemove r w =
     (case safetyLoop (removerSourceUserId r) (migrationTables r) [] 0 w of
        ((sc, tot), w1) \<Rightarrow>
          (\<lparr>isSafe = (tot = 0), totalReferences = tot, safetyCheck = sc\<rparr>, w1))"

definition createUserBackup :: "UserRemover \<Rightarrow> world \<Rightarrow> (error + artifact) \<times> world" where
  "createUserBackup r w =
     (case pool_select ''user'' (removerSourceUserId r) w of
        (Inl e, w1) \<Rightarrow> (Inl e, w1)
      | (Inr userData, w1) \<Rightarrow>
          (case userData of
             [] \<Rightarrow> (Inl (UserNotFoundForBackup (removerSourceUserId r)), w1)
           | user # _ \<Rightarrow>
               (Inr (UserBackup (removerSourceUserId r) user),
                writeFileSync (UserBackup (removerSourceUserId r) user) w1)))"

record removal_result =
  removed :: bool
  simulated :: bool
  affectedRows :: "nat option"

definition removeUserRecord :: "UserRemover \<Rightarrow> world \<Rightarrow> (error + removal_result) \<times> world" where
  "removeUserRecord r w =
     (if removerDryRun r then
        (Inr \<lparr>removed = False, simulated = True, affectedRows = None\<rparr>, w)
      else
        (case pool_delete ''user'' (removerSourceUserId r) w of
           (Inl e, w1) \<Rightarrow> (Inl e, w1)
         | (Inr n, w1) \<Rightarrow>
             if n = 0 then (Inl (NoUserDeleted (removerSourceUserId r)), w1)
             else (Inr \<lparr>removed = True, simulated = False, affectedRows = Some n\<rparr>, w1)))"

record removal_verification =
  success :: bool
  userStillExists :: bool

definition verifyRemoval ::
  "UserRemover \<Rightarrow> world \<Rightarrow> (error + removal_verification) \<times> world" where
  "verifyRemoval r w =
     (case pool_count ''user'' ''id'' (removerSourceUserId r) w of
        (Inl e, w1) \<Rightarrow> (Inl e, w1)
      | (Inr n, w1) \<Rightarrow>
          if n > 0 then (Inr \<lparr>success = False, userStillExists = True\<rparr>, w1)
          else (Inr \<lparr>success = True, userStillExists = False\<rparr>, w1))"

definition saveRemovalLog :: "world \<Rightarrow> world" where
  "saveRemovalLog w = writeFileSync RemovalLog w"

record removal_report =
  safety :: safety_result
  backup :: artifact
  removal :: removal_result
  verification :: removal_verification

text \<open>
  \<open>UserRemover.run\<close>. \<open>run_catch\<close> is its \<open>catch\<close> block and \<open>run_finally\<close> its
  \<open>finally\<close> block; the flag says whether \<open>connection\<close> has been assigned when the
  block is entered. A run that reaches the end of the \<open>try\<close> block returns its report:
  the promise resolves, whatever \<open>verification\<close> holds.
\<close>

definition run_finally :: "bool \<Rightarrow> world \<Rightarrow> world" where
  "run_finally connection w = emit PoolEnd (if connection then release w else w)"

definition run_catch ::
  "UserRemover \<Rightarrow> bool \<Rightarrow> error \<Rightarrow> world \<Rightarrow> (error + removal_report) \<times> world" where
  "run_catch r connection e w =
     (Inl e,
      run_finally connection
        (saveRemovalLog (if connection \<and> \<not> removerDryRun r then rollback w else w)))"

definition run :: "UserRemover \<Rightarrow> world \<Rightarrow> (error + removal_report) \<times> world" where
  "run r w =
     (case verifySafeToRemove r w of
        (safetyResult, w1) \<Rightarrow>
          if \<not> isSafe safetyResult then
            run_catch r False (NotSafeToRemove (totalReferences safetyResult)) w1
          else
            (case createUserBackup r w1 of
               (Inl e, w2) \<Rightarrow> run_catch r False e w2
             | (Inr backupFile, w2) \<Rightarrow>
                 (let w3 = getConnection w2;
                      w4 = (if \<not> removerDryRun r then beginTransaction w3 else w3)
                  in case removeUserRecord r w4 of
                       (Inl e, w5) \<Rightarrow> run_catch r True e w5
                     | (Inr removalResult, w5) \<Rightarrow>
                         (case verifyRemoval r w5 of
                            (Inl e, w6) \<Rightarrow> run_catch r True e w6
                          | (Inr verificationResult, w6) \<Rightarrow>
                              (let w7 = (if \<not> removerDryRun r \<and> success verificationResult
                                         then commit w6
                                         else if \<not> removerDryRun r then rollback w6
                                         else w6)
                               in (Inr \<lparr>safety = safetyResult, backup = backupFile,
                                        removal = removalResult,
                                        verification = verificationResult\<rparr>,
                                   run_finally True (saveRemovalLog w7)))))))"

section \<open>analyze-database.js: DatabaseAnalyzer, as migrate.js calls it\<close>

text \<open>
  The analyzer with the two methods that migrate.js calls, \<open>findTablesWithUserId\<close>
  and \<open>countRecordsByTable(tableMap)\<close>.

  \<open>findTablesWithUserId\<close> asks INFORMATION_SCHEMA for the columns whose name is
  \<open>LIKE '%user_id%'\<close>, ordered by table and column; \<open>catalog\<close> is the answer of the
  store, as (TABLE_NAME, COLUMN_NAME) pairs. This query is taken to succeed; its
  parameter is \<open>process.env.DB_NAME\<close>, so \<open>DB_NAME\<close> is taken to be set (mysql2
  refuses an undefined parameter, and the source throws that error again). The
  method groups the columns by table in
  a plain object \<open>tableMap = {}\<close>:
  \<^verbatim>\<open>
    if (!tableMap[row.TABLE_NAME]) { tableMap[row.TABLE_NAME] = []; }
    tableMap[row.TABLE_NAME].push({column: row.COLUMN_NAME, ...});
  \<close>
  For a table named like a property that every object inherits, the lookup finds the
  inherited value, which is truthy and has no \<open>push\<close>: the call raises a TypeError.
\<close>

definition object_prototype_names :: "string list" where
  "object_prototype_names =
     [''constructor'', ''__defineGetter__'', ''__defineSetter__'', ''hasOwnProperty'',
      ''__lookupGetter__'', ''__lookupSetter__'', ''isPrototypeOf'',
      ''propertyIsEnumerable'', ''toString'', ''valueOf'', ''__proto__'',
      ''toLocaleString'']"

fun push_column :: "string \<Rightarrow> string \<Rightarrow> (string \<times> string list) list \<Rightarrow> (string \<times> string list) list" where
  "push_column t c [] = [(t, [c])]"
| "push_column t c ((k, cs) # kvs) =
     (if k = t then (k, cs @ [c]) # kvs else (k, cs) # push_column t c kvs)"

fun group_columns ::
  "(string \<times> string) list \<Rightarrow> (string \<times> string list) list
     \<Rightarrow> error + (string \<times> string list) list" where
  "group_columns [] tableMap = Inr tableMap"
| "group_columns ((t, c) # rest) tableMap =
     (if t \<in> set object_prototype_names then Inl TypeError
      else group_columns rest (push_column t c tableMap))"

definition findTablesWithUserId ::
  "world \<Rightarrow> (error + (string \<times> string list) list) \<times> world" where
  "findTablesWithUserId w =
     (let w1 = issue SelectUserIdColumns w in (group_columns (catalog w1) [], w1))"

text \<open>
  \<open>Object.entries\<close> lists the keys that are array indices first, in ascending
  numeric order, and then the other keys in the order they were created.
\<close>

definition is_array_index :: "string \<Rightarrow> bool" where
  "is_array_index k =
     (k \<noteq> [] \<and> list_all (is_digit 10) k \<and> (k = ''0'' \<or> hd k \<noteq> CHR ''0'')
      \<and> digits_value 10 k < 4294967295)"

definition object_entries :: "(string \<times> 'v) list \<Rightarrow> (string \<times> 'v) list" where
  "object_entries kvs =
     sort_key (\<lambda>kv. digits_value 10 (fst kv)) (filter (\<lambda>kv. is_array_index (fst kv)) kvs)
     @ filter (\<lambda>kv. \<not> is_array_index (fst kv)) kvs"

definition ends_with :: "string \<Rightarrow> string \<Rightarrow> bool" where
  "ends_with s suf = (length suf \<le> length s \<and> drop (length s - length suf) s = suf)"

text \<open>
  \<^verbatim>\<open>
    columns.find(col => col.column === 'user_id' || col.column === 'usuario_id'
                        || col.column.endsWith('_user_id'))
  \<close>
\<close>

definition find_userIdColumn :: "string list \<Rightarrow> string option" where
  "find_userIdColumn columns =
     find (\<lambda>col. col = ''user_id'' \<or> col = ''usuario_id'' \<or> ends_with col ''_user_id'') columns"

text \<open>
  The analyzer keeps \<open>process.env.SOURCE_USER_ID || 41\<close> as it is, without
  \<open>parseInt\<close>, and passes it as the parameter of its count queries, where the store
  converts a string to a number. \<open>analyzerSourceUserId\<close> is the number the store
  compares the column with; it is 41 when the variable is unset.
\<close>

record DatabaseAnalyzer =
  analyzerSourceUserId :: int

text \<open>
  The loop of \<open>countRecordsByTable\<close>: a table with no user column gets no entry, and
  a count that fails is recorded as \<open>{count: 0, error}\<close>.
\<close>

fun countLoop ::
  "int \<Rightarrow> (string \<times> string list) list \<Rightarrow> (string \<times> nat) list \<Rightarrow> world
     \<Rightarrow> (string \<times> nat) list \<times> world" where
  "countLoop u [] recordCounts w = (recordCounts, w)"
| "countLoop u ((tableName, columns) # rest) recordCounts w =
     (case find_userIdColumn columns of
        None \<Rightarrow> countLoop u rest recordCounts w
      | Some userIdColumn \<Rightarrow>
          (case pool_count tableName userIdColumn u w of
             (Inr n, w1) \<Rightarrow> countLoop u rest (assign tableName n recordCounts) w1
           | (Inl e, w1) \<Rightarrow> countLoop u rest (assign tableName 0 recordCounts) w1))"

definition countRecordsByTable ::
  "DatabaseAnalyzer \<Rightarrow> (string \<times> string list) list \<Rightarrow> world \<Rightarrow> (string \<times> nat) list \<times> world" where
  "countRecordsByTable a tableMap w =
     countLoop (analyzerSourceUserId a) (object_entries tableMap) [] w"

section \<open>migrate.js: UserMigrator\<close>

text \<open>
  As in the remover, the log entries are left out. The table of users is \<open>users\<close>
  here and \<open>user\<close> in the remover, as in the source.
\<close>

text \<open>
  \<open>validatePrerequisites\<close> reads the two users from table \<open>users\<close> with
  \<open>LIMIT 1\<close> and raises when one is missing.
\<close>

definition validatePrerequisites :: "UserMigrator \<Rightarrow> world \<Rightarrow> (error + row \<times> row) \<times> world" where
  "validatePrerequisites m w =
     (case pool_select ''users'' (sourceUserId m) w of
        (Inl e, w1) \<Rightarrow> (Inl e, w1)
      | (Inr found, w1) \<Rightarrow>
          (case take 1 found of
             [] \<Rightarrow> (Inl (SourceUserNotFound (sourceUserId m)), w1)
           | sourceUser # _ \<Rightarrow>
               (case pool_select ''users'' (targetUserId m) w1 of
                  (Inl e, w2) \<Rightarrow> (Inl e, w2)
                | (Inr found', w2) \<Rightarrow>
                    (case take 1 found' of
                       [] \<Rightarrow> (Inl (TargetUserNotFound (targetUserId m)), w2)
                     | targetUser # _ \<Rightarrow> (Inr (sourceUser, targetUser), w2)))))"

record table_result =
  migrated :: nat
  skipped :: nat
  existingRecords :: "nat option"

definition migrateTable ::
  "UserMigrator \<Rightarrow> string \<Rightarrow> string \<Rightarrow> world \<Rightarrow> (error + table_result) \<times> world" where
  "migrateTable m tableName userIdColumn w =
     (case pool_count tableName userIdColumn (sourceUserId m) w of
        (Inl e, w1) \<Rightarrow> (Inl e, w1)
      | (Inr recordCount, w1) \<Rightarrow>
          if recordCount = 0 then
            (Inr \<lparr>migrated = 0, skipped = 0, existingRecords = None\<rparr>, w1)
          else if dryRun m then
            (Inr \<lparr>migrated = 0, skipped = recordCount, existingRecords = None\<rparr>, w1)
          else
            (case pool_count tableName userIdColumn (targetUserId m) w1 of
               (Inl e, w2) \<Rightarrow> (Inl e, w2)
             | (Inr existing, w2) \<Rightarrow>
                 (case pool_update tableName userIdColumn (targetUserId m) (sourceUserId m) w2 of
                    (Inl e, w3) \<Rightarrow> (Inl e, w3)
                  | (Inr affected, w3) \<Rightarrow>
                      (Inr \<lparr>migrated = affected, skipped = 0,
                            existingRecords = Some existing\<rparr>, w3))))"

text \<open>
  The loop of \<open>executeMigration\<close> over \<open>Object.entries(tableMap)\<close>, with
  \<open>migrationResults\<close> and \<open>totalMigrated\<close>. Its inner \<open>catch\<close> rolls the
  transaction of \<open>connection\<close> back (outside a dry run) and throws the error again.
\<close>

fun migrateLoop ::
  "UserMigrator \<Rightarrow> (string \<times> nat) list \<Rightarrow> (string \<times> string list) list
     \<Rightarrow> (string \<times> table_result) list \<Rightarrow> nat \<Rightarrow> world
     \<Rightarrow> (error + (string \<times> table_result) list \<times> nat) \<times> world" where
  "migrateLoop m recordCounts [] results tot w = (Inr (results, tot), w)"
| "migrateLoop m recordCounts ((tableName, columns) # rest) results tot w =
     (case find_userIdColumn columns of
        None \<Rightarrow> migrateLoop m recordCounts rest results tot w
      | Some userIdColumn \<Rightarrow>
          if (case map_of recordCounts tableName of None \<Rightarrow> False | Some n \<Rightarrow> n > 0) then
            (case migrateTable m tableName userIdColumn w of
               (Inl e, w1) \<Rightarrow> (Inl e, if \<not> dryRun m then rollback w1 else w1)
             | (Inr result, w1) \<Rightarrow>
                 migrateLoop m recordCounts rest (assign tableName result results)
                   (tot + migrated result) w1)
          else migrateLoop m recordCounts rest results tot w)"

record migration_report =
  reportSourceUserId :: int
  reportTargetUserId :: int
  totalMigrated :: nat
  migrationResults :: "(string \<times> table_result) list"
  reportDryRun :: bool

text \<open>
  \<open>executeMigration\<close>. An error before \<open>connection\<close> is assigned passes through the
  outer \<open>catch\<close> and \<open>finally\<close> with nothing to roll back or release; after it, the
  outer \<open>catch\<close> rolls back again (outside a dry run) and \<open>finally\<close> releases the
  connection. The error thrown is the one caught.
\<close>

definition executeMigration ::
  "UserMigrator \<Rightarrow> DatabaseAnalyzer \<Rightarrow> world \<Rightarrow> (error + migration_report) \<times> world" where
  "executeMigration m a w =
     (case validatePrerequisites m w of
        (Inl e, w1) \<Rightarrow> (Inl e, w1)
      | (Inr users, w1) \<Rightarrow>
          (case findTablesWithUserId w1 of
             (Inl e, w2) \<Rightarrow> (Inl e, w2)
           | (Inr tableMap, w2) \<Rightarrow>
               (case countRecordsByTable a tableMap w2 of
                  (recordCounts, w3) \<Rightarrow>
                    (let w4 = getConnection w3;
                         w5 = (if \<not> dryRun m then beginTransaction w4 else w4)
                     in case migrateLoop m recordCounts (object_entries tableMap) [] 0 w5 of
                          (Inl e, w6) \<Rightarrow>
                            (Inl e, release (if \<not> dryRun m then rollback w6 else w6))
                        | (Inr (results, tot), w6) \<Rightarrow>
                            (Inr \<lparr>reportSourceUserId = sourceUserId m,
                                  reportTargetUserId = targetUserId m,
                                  totalMigrated = tot,
                                  migrationResults = results,
                                  reportDryRun = dryRun m\<rparr>,
                             release (if \<not> dryRun m \<and> tot > 0 then commit w6 else w6))))))"

text \<open>
  \<open>verifyMigration\<close> counts, for every table with a user column, the rows of the
  source and of the target user; a count that fails ends the verification with that
  error. \<open>totalSourceRemaining\<close> is the \<open>reduce\<close> over the recorded values.
\<close>

record verification_entry =
  sourceRemaining :: nat
  targetTotal :: nat

fun verifyLoop ::
  "UserMigrator \<Rightarrow> (string \<times> string list) list \<Rightarrow> (string \<times> verification_entry) list \<Rightarrow> world
     \<Rightarrow> (error + (string \<times> verification_entry) list) \<times> world" where
  "verifyLoop m [] results w = (Inr results, w)"
| "verifyLoop m ((tableName, columns) # rest) results w =
     (case find_userIdColumn columns of
        None \<Rightarrow> verifyLoop m rest results w
      | Some userIdColumn \<Rightarrow>
          (case pool_count tableName userIdColumn (sourceUserId m) w of
             (Inl e, w1) \<Rightarrow> (Inl e, w1)
           | (Inr sourceCount, w1) \<Rightarrow>
               (case pool_count tableName userIdColumn (targetUserId m) w1 of
                  (Inl e, w2) \<Rightarrow> (Inl e, w2)
                | (Inr targetCount, w2) \<Rightarrow>
                    verifyLoop m rest
                      (assign tableName
                         \<lparr>sourceRemaining = sourceCount, targetTotal = targetCount\<rparr> results)
                      w2)))"

definition totalSourceRemaining :: "(string \<times> verification_entry) list \<Rightarrow> nat" where
  "totalSourceRemaining verificationResults =
     foldl (\<lambda>s result. s + sourceRemaining result) 0 (map snd verificationResults)"

definition verifyMigration ::
  "UserMigrator \<Rightarrow> world \<Rightarrow> (error + (string \<times> verification_entry) list) \<times> world" where
  "verifyMigration m w =
     (case findTablesWithUserId w of
        (Inl e, w1) \<Rightarrow> (Inl e, w1)
      | (Inr tableMap, w1) \<Rightarrow> verifyLoop m (object_entries tableMap) [] w1)"

section \<open>Observations on a run\<close>

text \<open>
  What the properties below look at in the trace of a run: the backup files written,
  the statements that write (\<open>UPDATE\<close>, \<open>DELETE\<close>), the transaction calls, and the
  events that a run added to the trace.
\<close>

definition is_backup :: "event \<Rightarrow> bool" where
  "is_backup ev = (case ev of WriteFile (UserBackup u r) \<Rightarrow> True | _ \<Rightarrow> False)"

definition is_write :: "event \<Rightarrow> bool" where
  "is_write ev =
     (case ev of
        PoolExecute (UpdateWhere n c new old) \<Rightarrow> True
      | PoolExecute (DeleteById n v) \<Rightarrow> True
      | _ \<Rightarrow> False)"

definition is_select :: "event \<Rightarrow> bool" where
  "is_select ev = (case ev of PoolExecute (SelectById n v) \<Rightarrow> True | _ \<Rightarrow> False)"

definition is_transaction_call :: "event \<Rightarrow> bool" where
  "is_transaction_call ev = (ev = BeginTransaction \<or> ev = Commit \<or> ev = Rollback)"

definition new_events :: "world \<Rightarrow> world \<Rightarrow> event list" where
  "new_events w w' = drop (length (trace w)) (trace w')"

text \<open>
  The rows of table \<open>n\<close> in a store, and the row of user \<open>u\<close>: the first row of
  table \<open>user\<close> whose \<open>id\<close> is \<open>u\<close>, which is \<open>userData[0]\<close> of
  \<open>SELECT * FROM user WHERE id = ?\<close> in that store.
\<close>

definition stored_rows :: "string \<Rightarrow> world \<Rightarrow> row list" where
  "stored_rows n w = (case find_table n (tables w) of None \<Rightarrow> [] | Some t \<Rightarrow> rows t)"

definition entity_row :: "int \<Rightarrow> world \<Rightarrow> row option" where
  "entity_row u w =
     (case matching ''id'' u (stored_rows ''user'' w) of [] \<Rightarrow> None | r # _ \<Rightarrow> Some r)"

text \<open>
  Backup before delete, for user \<open>u\<close> whose row is \<open>snapshot\<close>, along a list of events:
  every \<open>DELETE\<close> is on table \<open>user\<close> for \<open>u\<close> and comes after the backup file
  holding exactly that row has been written for \<open>u\<close>. The flag says whether that
  backup has been seen; a backup file with any other content does not count.
\<close>

fun backed_up_before_delete :: "int \<Rightarrow> row option \<Rightarrow> bool \<Rightarrow> event list \<Rightarrow> bool" where
  "backed_up_before_delete u snapshot b [] = True"
| "backed_up_before_delete u snapshot b (WriteFile (UserBackup u' r) # evs) =
     backed_up_before_delete u snapshot (b \<or> (u' = u \<and> snapshot = Some r)) evs"
| "backed_up_before_delete u snapshot b (PoolExecute (DeleteById n v) # evs) =
     (b \<and> n = ''user'' \<and> v = u \<and> backed_up_before_delete u snapshot b evs)"
| "backed_up_before_delete u snapshot b (ev # evs) = backed_up_before_delete u snapshot b evs"

text \<open>A binding whose count query the store answers: the table exists and can be read.\<close>

definition countable :: "table list \<Rightarrow> string \<times> string \<Rightarrow> bool" where
  "countable ts tc = (case find_table (fst tc) ts of None \<Rightarrow> False | Some t \<Rightarrow> readable t)"

text \<open>The \<open>remainingReferences\<close> values that a safety check recorded.\<close>

definition recorded_references :: "safety_result \<Rightarrow> int list" where
  "recorded_references s = map (\<lambda>e. remainingReferences (snd e)) (safetyCheck s)"

text \<open>
  The (table, user column) pairs that the loops of migrate.js work on: the entries of
  \<open>tableMap\<close> in which \<open>find\<close> finds a user column.
\<close>

definition bindings :: "(string \<times> string list) list \<Rightarrow> (string \<times> string) list" where
  "bindings entries =
     concat (map (\<lambda>tc. case find_userIdColumn (snd tc) of None \<Rightarrow> [] | Some c \<Rightarrow> [(fst tc, c)])
               entries)"

definition userIdBindings :: "world \<Rightarrow> (string \<times> string) list" where
  "userIdBindings w =
     (case group_columns (catalog w) [] of
        Inl e \<Rightarrow> []
      | Inr tableMap \<Rightarrow> bindings (object_entries tableMap))"

text \<open>
  A per-table result of a dry run: nothing migrated, and \<open>skipped\<close> is the number of
  rows of that table that reference user \<open>u\<close> in the tables \<open>ts\<close>.
\<close>

definition simulation_result ::
  "table list \<Rightarrow> int \<Rightarrow> (string \<times> string) list \<Rightarrow> string \<times> table_result \<Rightarrow> bool" where
  "simulation_result ts u bs tr =
     (migrated (snd tr) = 0
      \<and> list_ex (\<lambda>b. fst b = fst tr \<and> skipped (snd tr) = references ts (fst b) (snd b) u) bs)"

text \<open>
  A step from \<open>w\<close> to \<open>w'\<close> that only reads: no write statement and no transaction call
  is added, and in a store used by this run alone the tables stay as they are.
\<close>

definition only_reads :: "world \<Rightarrow> world \<Rightarrow> bool" where
  "only_reads w w' =
     (filter is_write (trace w') = filter is_write (trace w)
      \<and> filter is_transaction_call (trace w') = filter is_transaction_call (trace w)
      \<and> tx_open w' = tx_open w
      \<and> catalog w' = catalog w
      \<and> (concurrent w = [] \<longrightarrow> tables w' = tables w \<and> concurrent w' = []))"


section \<open>Example configurations and stores\<close>

text \<open>
  Configurations: an environment with unusable identifiers, and the defaults. The
  constructors read \<open>SOURCE_USER_ID\<close>, \<open>TARGET_USER_ID\<close> and \<open>DRY_RUN\<close> only; the
  runs on the stores below are runs with \<open>DB_NAME\<close> set.
\<close>

definition env_abc_zero :: env where
  "env_abc_zero = (\<lambda>_. None)(''SOURCE_USER_ID'' := Some ''abc'', ''TARGET_USER_ID'' := Some ''0'')"

definition default_remover :: UserRemover where
  "default_remover = new_UserRemover (\<lambda>_. None)"

definition default_migrator :: UserMigrator where
  "default_migrator = new_UserMigrator (\<lambda>_. None)"

definition default_analyzer :: DatabaseAnalyzer where
  "default_analyzer = \<lparr>analyzerSourceUserId = 41\<rparr>"

definition dry_run_migrator :: UserMigrator where
  "dry_run_migrator = new_UserMigrator ((\<lambda>_. None)(''DRY_RUN'' := Some ''true''))"

text \<open>Source user 7, who is in no store below; and source and target both 358.\<close>

definition migrator_from_7 :: UserMigrator where
  "migrator_from_7 =
     new_UserMigrator
       ((\<lambda>_. None)(''DB_NAME'' := Some ''fiesto18_database'', ''SOURCE_USER_ID'' := Some ''7''))"

definition migrator_358_to_358 :: UserMigrator where
  "migrator_358_to_358 =
     new_UserMigrator
       ((\<lambda>_. None)(''DB_NAME'' := Some ''fiesto18_database'', ''SOURCE_USER_ID'' := Some ''358''))"

definition analyzer_358 :: DatabaseAnalyzer where
  "analyzer_358 = \<lparr>analyzerSourceUserId = 358\<rparr>"

definition user_41 :: row where
  "user_41 = [(''id'', 41), (''status'', 1)]"

text \<open>
  Stores for the remover (table \<open>user\<close>): one where two rows of \<open>content\<close> still
  reference user 41; one with user 41 and no reference to it; one without user 41;
  one where the count on \<open>content\<close> is refused while two of its rows reference user
  41; and a clean one where another session inserts a user 41 again before the fifth
  statement of the run.
\<close>

definition store_with_references :: world where
  "store_with_references =
     \<lparr> tables =
         [\<lparr>tname = ''user'', readable = True, writable = True, rows = [user_41, [(''id'', 358)] ]\<rparr>,
          \<lparr>tname = ''content'', readable = True, writable = True,
             rows = [ [(''id'', 1), (''user_id'', 41)], [(''id'', 2), (''user_id'', 41)] ]\<rparr>,
          \<lparr>tname = ''media'', readable = True, writable = True, rows = []\<rparr>],
       catalog = [], concurrent = [], tx_open = False, trace = [] \<rparr>"

definition store_clean :: world where
  "store_clean =
     \<lparr> tables =
         [\<lparr>tname = ''user'', readable = True, writable = True, rows = [user_41, [(''id'', 358)] ]\<rparr>,
          \<lparr>tname = ''content'', readable = True, writable = True, rows = []\<rparr>,
          \<lparr>tname = ''media'', readable = True, writable = True, rows = []\<rparr>],
       catalog = [], concurrent = [], tx_open = False, trace = [] \<rparr>"

definition store_without_user :: world where
  "store_without_user =
     \<lparr> tables =
         [\<lparr>tname = ''user'', readable = True, writable = True, rows = [ [(''id'', 358)] ]\<rparr>,
          \<lparr>tname = ''content'', readable = True, writable = True, rows = []\<rparr>,
          \<lparr>tname = ''media'', readable = True, writable = True, rows = []\<rparr>],
       catalog = [], concurrent = [], tx_open = False, trace = [] \<rparr>"

definition store_count_fails :: world where
  "store_count_fails =
     \<lparr> tables =
         [\<lparr>tname = ''user'', readable = True, writable = True, rows = [user_41, [(''id'', 358)] ]\<rparr>,
          \<lparr>tname = ''content'', readable = False, writable = True,
             rows = [ [(''id'', 1), (''user_id'', 41)], [(''id'', 2), (''user_id'', 41)] ]\<rparr>,
          \<lparr>tname = ''media'', readable = True, writable = True, rows = []\<rparr>],
       catalog = [(''content'', ''user_id''), (''media'', ''user_id'')],
       concurrent = [], tx_open = False, trace = [] \<rparr>"

definition store_reinserted :: world where
  "store_reinserted =
     \<lparr> tables =
         [\<lparr>tname = ''user'', readable = True, writable = True, rows = [user_41, [(''id'', 358)] ]\<rparr>,
          \<lparr>tname = ''content'', readable = True, writable = True, rows = []\<rparr>,
          \<lparr>tname = ''media'', readable = True, writable = True, rows = []\<rparr>],
       catalog = [],
       concurrent = [ [], [], [], [], [(''user'', [(''id'', 41)])] ],
       tx_open = False, trace = [] \<rparr>"

text \<open>
  Stores for the migrator (table \<open>users\<close>): one with three rows to migrate; the same
  with writes on \<open>media\<close> refused; one where the migration has been done already; and
  one without the target user.
\<close>

definition store_to_migrate :: world where
  "store_to_migrate =
     \<lparr> tables =
         [\<lparr>tname = ''users'', readable = True, writable = True, rows = [user_41, [(''id'', 358)] ]\<rparr>,
          \<lparr>tname = ''content'', readable = True, writable = True,
             rows = [ [(''id'', 1), (''user_id'', 41)], [(''id'', 2), (''user_id'', 41)],
                     [(''id'', 3), (''user_id'', 7)] ]\<rparr>,
          \<lparr>tname = ''media'', readable = True, writable = True,
             rows = [ [(''id'', 1), (''user_id'', 41)] ]\<rparr>],
       catalog = [(''content'', ''user_id''), (''media'', ''user_id'')],
       concurrent = [], tx_open = False, trace = [] \<rparr>"

definition store_media_refused :: world where
  "store_media_refused =
     \<lparr> tables =
         [\<lparr>tname = ''users'', readable = True, writable = True, rows = [user_41, [(''id'', 358)] ]\<rparr>,
          \<lparr>tname = ''content'', readable = True, writable = True,
             rows = [ [(''id'', 1), (''user_id'', 41)], [(''id'', 2), (''user_id'', 41)],
                     [(''id'', 3), (''user_id'', 7)] ]\<rparr>,
          \<lparr>tname = ''media'', readable = True, writable = False,
             rows = [ [(''id'', 1), (''user_id'', 41)] ]\<rparr>],
       catalog = [(''content'', ''user_id''), (''media'', ''user_id'')],
       concurrent = [], tx_open = False, trace = [] \<rparr>"

definition store_migrated :: world where
  "store_migrated =
     \<lparr> tables =
         [\<lparr>tname = ''users'', readable = True, writable = True, rows = [user_41, [(''id'', 358)] ]\<rparr>,
          \<lparr>tname = ''content'', readable = True, writable = True,
             rows = [ [(''id'', 1), (''user_id'', 358)], [(''id'', 2), (''user_id'', 358)] ]\<rparr>,
          \<lparr>tname = ''media'', readable = True, writable = True, rows = []\<rparr>],
       catalog = [(''content'', ''user_id''), (''media'', ''user_id'')],
       concurrent = [], tx_open = False, trace = [] \<rparr>"

definition store_without_target :: world where
  "store_without_target =
     \<lparr> tables =
         [\<lparr>tname = ''users'', readable = True, writable = True, rows = [user_41]\<rparr>,
          \<lparr>tname = ''content'', readable = True, writable = True,
             rows = [ [(''id'', 1), (''user_id'', 41)] ]\<rparr>],
       catalog = [(''content'', ''user_id'')],
       concurrent = [], tx_open = False, trace = [] \<rparr>"

section \<open>Properties of the configuration\<close>

lemmas parse_defs = parseInt_def parseInt_string_def is_ws_def is_ws_bytes_def is_digit_def
  digit_val_def
  digits_value_def or_default_def

lemma parseInt_unset: "parseInt None = None"
  by (simp add: parse_defs)

lemma parseInt_examples:
  "parseInt (Some ''41'') = Some 41" "parseInt (Some '' 7xyz'') = Some 7"
  "parseInt (Some ''-5'') = Some (- 5)" "parseInt (Some ''0x29'') = Some 41"
  "parseInt (Some '''') = None" "parseInt (Some ''abc'') = None"
  "parseInt (Some ''000'') = Some 0" "parseInt (Some ''-0'') = Some 0"
  "parseInt (Some [CHR 0xC2, CHR 0xA0, CHR ''7'']) = Some 7"
  "parseInt (Some [CHR 0x09, CHR 0xEF, CHR 0xBB, CHR 0xBF, CHR '' '', CHR ''7'']) = Some 7"
  "parseInt (Some [CHR 0xC2, CHR ''7'']) = None"
  by (simp_all add: parse_defs)

text \<open>
  C10. When \<open>SOURCE_USER_ID\<close> is unset, or \<open>parseInt\<close> gives NaN or 0 for it, the
  migrator and the remover take 41 as the source user; when \<open>TARGET_USER_ID\<close> is
  unset, or parses to NaN or 0, the migrator takes 358 as the target user. The
  constructors have no failure branch.
\<close>

theorem C10_defaults_substituted:
  "(e ''SOURCE_USER_ID'' = None \<or> parseInt (e ''SOURCE_USER_ID'') = None
      \<or> parseInt (e ''SOURCE_USER_ID'') = Some 0
    \<longrightarrow> sourceUserId (new_UserMigrator e) = 41 \<and> removerSourceUserId (new_UserRemover e) = 41)
   \<and> (e ''TARGET_USER_ID'' = None \<or> parseInt (e ''TARGET_USER_ID'') = None
      \<or> parseInt (e ''TARGET_USER_ID'') = Some 0
    \<longrightarrow> targetUserId (new_UserMigrator e) = 358)"
  by (auto simp: new_UserMigrator_def new_UserRemover_def or_default_def parseInt_unset)

theorem C10_defaults_substituted_witness:
  "parseInt (env_abc_zero ''SOURCE_USER_ID'') = None
   \<and> parseInt (env_abc_zero ''TARGET_USER_ID'') = Some 0
   \<and> sourceUserId (new_UserMigrator env_abc_zero) = 41
   \<and> removerSourceUserId (new_UserRemover env_abc_zero) = 41
   \<and> targetUserId (new_UserMigrator env_abc_zero) = 358"
proof -
  have s: "parseInt (env_abc_zero ''SOURCE_USER_ID'') = None"
    by (simp add: env_abc_zero_def parse_defs)
  have t: "parseInt (env_abc_zero ''TARGET_USER_ID'') = Some 0"
    by (simp add: env_abc_zero_def parse_defs)
  show ?thesis
    using C10_defaults_substituted [of env_abc_zero] s t by simp
qed

section \<open>Properties of the store and of the remover\<close>

lemma arrive_fields [simp]:
  "trace (arrive w) = trace w" "tx_open (arrive w) = tx_open w" "catalog (arrive w) = catalog w"
  by (simp_all add: arrive_def split: list.splits)

lemma arrive_quiet [simp]: "concurrent w = [] \<Longrightarrow> arrive w = w"
  by (simp add: arrive_def)

lemma issue_fields [simp]:
  "trace (issue s w) = trace w @ [PoolExecute s]" "tx_open (issue s w) = tx_open w"
  "catalog (issue s w) = catalog w"
  by (simp_all add: issue_def)

lemma issue_quiet [simp]:
  "concurrent w = [] \<Longrightarrow> tables (issue s w) = tables w"
  "concurrent w = [] \<Longrightarrow> concurrent (issue s w) = []"
  by (simp_all add: issue_def)

lemma emit_fields [simp]:
  "trace (emit ev w) = trace w @ [ev]" "tx_open (emit ev w) = tx_open w"
  "catalog (emit ev w) = catalog w" "tables (emit ev w) = tables w"
  "concurrent (emit ev w) = concurrent w"
  by (simp_all add: emit_def)

lemma snd_pool_count [simp]: "snd (pool_count n c v w) = issue (CountWhere n c v) w"
  by (simp add: pool_count_def Let_def split: option.splits)

lemma snd_pool_select [simp]: "snd (pool_select n v w) = issue (SelectById n v) w"
  by (simp add: pool_select_def Let_def split: option.splits)

lemma pool_delete_fields [simp]:
  "trace (snd (pool_delete n v w)) = trace w @ [PoolExecute (DeleteById n v)]"
  "tx_open (snd (pool_delete n v w)) = tx_open w"
  by (simp_all add: pool_delete_def Let_def split: option.splits)

lemma pool_update_fields [simp]:
  "trace (snd (pool_update n c new old w)) = trace w @ [PoolExecute (UpdateWhere n c new old)]"
  "tx_open (snd (pool_update n c new old w)) = tx_open w"
  "catalog (snd (pool_update n c new old w)) = catalog w"
  by (simp_all add: pool_update_def Let_def split: option.splits)

lemma connection_calls [simp]:
  "trace (getConnection w) = trace w @ [GetConnection]"
  "trace (beginTransaction w) = trace w @ [BeginTransaction]"
  "trace (commit w) = trace w @ [Commit]"
  "trace (rollback w) = trace w @ [Rollback]"
  "trace (release w) = trace w @ [Release]"
  "trace (writeFileSync f w) = trace w @ [WriteFile f]"
  "tables (getConnection w) = tables w"
  "tables (beginTransaction w) = tables w"
  "tables (commit w) = tables w"
  "tables (rollback w) = tables w"
  "tables (release w) = tables w"
  "tables (writeFileSync f w) = tables w"
  "concurrent (getConnection w) = concurrent w"
  "concurrent (beginTransaction w) = concurrent w"
  "concurrent (commit w) = concurrent w"
  "concurrent (rollback w) = concurrent w"
  "concurrent (release w) = concurrent w"
  "concurrent (writeFileSync f w) = concurrent w"
  by (simp_all add: getConnection_def beginTransaction_def commit_def rollback_def release_def
      writeFileSync_def)

lemmas store_defs = pool_count_def pool_select_def pool_delete_def pool_update_def issue_def
  arrive_def emit_def find_table_def matching_def insert_row_def references_def

lemmas remover_defs = run_def run_catch_def run_finally_def saveRemovalLog_def writeFileSync_def
  createUserBackup_def removeUserRecord_def verifyRemoval_def verifySafeToRemove_def
  getConnection_def beginTransaction_def commit_def rollback_def release_def
  default_remover_def new_UserRemover_def MIGRATION_TABLES_def or_default_def parseInt_unset
  user_41_def

lemma safetyLoop_trace:
  "trace (snd (safetyLoop u tabs sc tot w)) =
     trace w @ map (\<lambda>tc. PoolExecute (CountWhere (fst tc) (snd tc) u)) tabs"
proof (induction tabs arbitrary: sc tot w)
  case Nil
  show ?case by simp
next
  case (Cons tc tabs)
  obtain t c where tc: "tc = (t, c)" by (cases tc)
  show ?case
    by (cases "fst (pool_count t c u w)")
       (simp_all add: tc split_beta Cons.IH split: sum.splits)
qed

lemma safetyLoop_quiet:
  "concurrent w = [] \<Longrightarrow>
     tables (snd (safetyLoop u tabs sc tot w)) = tables w
     \<and> concurrent (snd (safetyLoop u tabs sc tot w)) = []"
proof (induction tabs arbitrary: sc tot w)
  case Nil
  then show ?case by simp
next
  case (Cons tc tabs)
  obtain t c where tc: "tc = (t, c)" by (cases tc)
  show ?case
    using Cons.prems
    by (cases "fst (pool_count t c u w)")
       (simp_all add: tc split_beta Cons.IH split: sum.splits)
qed

lemma verifySafeToRemove_effect [simp]:
  "trace (snd (verifySafeToRemove r w)) =
     trace w @ map (\<lambda>tc. PoolExecute (CountWhere (fst tc) (snd tc) (removerSourceUserId r)))
                 (migrationTables r)"
  "concurrent w = [] \<Longrightarrow> tables (snd (verifySafeToRemove r w)) = tables w"
  "concurrent w = [] \<Longrightarrow> concurrent (snd (verifySafeToRemove r w)) = []"
  by (simp_all add: verifySafeToRemove_def split_beta safetyLoop_trace safetyLoop_quiet)

lemma isSafe_iff: "isSafe (fst (verifySafeToRemove r w)) = (totalReferences (fst (verifySafeToRemove r w)) = 0)"
  by (simp add: verifySafeToRemove_def split_beta)

lemma filter_counts [simp]:
  "filter is_backup (map (\<lambda>tc. PoolExecute (CountWhere (fst tc) (snd tc) u)) tabs) = []"
  "filter is_write (map (\<lambda>tc. PoolExecute (CountWhere (fst tc) (snd tc) u)) tabs) = []"
  by (induction tabs) (simp_all add: is_backup_def is_write_def)

text \<open>
  The gate of \<open>run\<close>, taken by itself: when the total that the safety check computed
  is not zero, \<open>run\<close> raises "not safe to remove" with that total, writes no backup,
  issues no write, and in a store used by this run alone leaves every table as it was.
\<close>

lemma run_stops_on_nonzero_total:
  assumes "totalReferences (fst (verifySafeToRemove r w)) \<noteq> 0"
  shows "fst (run r w) = Inl (NotSafeToRemove (totalReferences (fst (verifySafeToRemove r w))))
     \<and> filter is_backup (trace (snd (run r w))) = filter is_backup (trace w)
     \<and> filter is_write (trace (snd (run r w))) = filter is_write (trace w)
     \<and> (concurrent w = [] \<longrightarrow> tables (snd (run r w)) = tables w)"
  using assms
  by (simp add: run_def split_beta isSafe_iff run_catch_def run_finally_def saveRemovalLog_def
      writeFileSync_def is_backup_def is_write_def)

lemma safety_store_with_references:
  "totalReferences (fst (verifySafeToRemove default_remover store_with_references)) = 2"
  by (simp add: remover_defs store_defs store_with_references_def Let_def)

lemma run_stops_at_store_with_references:
  "fst (run default_remover store_with_references) = Inl (NotSafeToRemove 2)"
  "filter is_backup (trace (snd (run default_remover store_with_references))) = []"
  "filter is_write (trace (snd (run default_remover store_with_references))) = []"
  "tables (snd (run default_remover store_with_references)) = tables store_with_references"
proof -
  have q: "concurrent store_with_references = []" and t: "trace store_with_references = []"
    by (simp_all add: store_with_references_def)
  have "totalReferences (fst (verifySafeToRemove default_remover store_with_references)) \<noteq> 0"
    by (simp add: safety_store_with_references)
  from run_stops_on_nonzero_total [OF this] q t
  show "fst (run default_remover store_with_references) = Inl (NotSafeToRemove 2)"
    "filter is_backup (trace (snd (run default_remover store_with_references))) = []"
    "filter is_write (trace (snd (run default_remover store_with_references))) = []"
    "tables (snd (run default_remover store_with_references)) = tables store_with_references"
    by (simp_all add: safety_store_with_references)
qed

lemma backed_up_counts [simp]:
  "backed_up_before_delete u s b (map (\<lambda>tc. PoolExecute (CountWhere (fst tc) (snd tc) v)) tabs @ evs)
     = backed_up_before_delete u s b evs"
proof (induction tabs)
  case Nil
  show ?case by simp
next
  case (Cons a tabs)
  show ?case using Cons.IH by simp
qed

lemma matching_head: "matching c v rs = r # rest \<Longrightarrow> map_of r c = Some v"
proof -
  assume a: "matching c v rs = r # rest"
  have "r \<in> set (matching c v rs)" by (simp add: a)
  then show ?thesis by (simp add: matching_def)
qed

lemma pool_select_head:
  "fst (pool_select n v w) = Inr (r # rest) \<Longrightarrow> map_of r ''id'' = Some v"
  by (auto simp: pool_select_def Let_def matching_head split: option.splits if_splits)

lemma entity_row_stored:
  assumes "entity_row u w = Some row"
  shows "row \<in> set (stored_rows ''user'' w) \<and> map_of row ''id'' = Some u"
proof -
  obtain rest where m: "matching ''id'' u (stored_rows ''user'' w) = row # rest"
    using assms by (auto simp: entity_row_def split: list.splits)
  then have "row \<in> set (matching ''id'' u (stored_rows ''user'' w))"
    by simp
  then show ?thesis
    using matching_head [OF m] by (simp add: matching_def)
qed

lemma new_events_append [simp]: "trace w' = trace w @ evs \<Longrightarrow> new_events w w' = evs"
  by (simp add: new_events_def)

lemma createUserBackup_trace:
  "trace (snd (createUserBackup r w)) =
     trace w @ PoolExecute (SelectById ''user'' (removerSourceUserId r))
       # (case fst (createUserBackup r w) of Inl e \<Rightarrow> [] | Inr b \<Rightarrow> [WriteFile b])"
  by (simp add: createUserBackup_def split_beta writeFileSync_def split: sum.splits list.splits)

text \<open>
  The file that \<open>createUserBackup\<close> writes holds the row of the user as it is stored
  when the \<open>SELECT\<close> runs.
\<close>

lemma createUserBackup_result:
  "fst (createUserBackup r w) = Inr b \<Longrightarrow>
     \<exists>row. b = UserBackup (removerSourceUserId r) row
       \<and> entity_row (removerSourceUserId r) (snd (pool_select ''user'' (removerSourceUserId r) w))
           = Some row"
  by (auto simp: createUserBackup_def pool_select_def issue_def Let_def entity_row_def
      stored_rows_def split: option.splits if_splits list.splits)

lemma removeUserRecord_trace:
  "trace (snd (removeUserRecord r w)) =
     trace w @ (if removerDryRun r then [] else [PoolExecute (DeleteById ''user'' (removerSourceUserId r))])"
  by (simp add: removeUserRecord_def split_beta split: sum.splits)

lemma verifyRemoval_trace:
  "trace (snd (verifyRemoval r w)) =
     trace w @ [PoolExecute (CountWhere ''user'' ''id'' (removerSourceUserId r))]"
  by (simp add: verifyRemoval_def split_beta split: sum.splits)

lemma run_finally_effect [simp]:
  "trace (run_finally c w) = trace w @ (if c then [Release, PoolEnd] else [PoolEnd])"
  "tables (run_finally c w) = tables w"
  by (simp_all add: run_finally_def)

lemma run_catch_effect [simp]:
  "fst (run_catch r c e w) = Inl e"
  "trace (snd (run_catch r c e w)) =
     trace w @ (if c \<and> \<not> removerDryRun r then [Rollback] else [])
       @ WriteFile RemovalLog # (if c then [Release, PoolEnd] else [PoolEnd])"
  "tables (snd (run_catch r c e w)) = tables w"
  by (simp_all add: run_catch_def saveRemovalLog_def)

lemma run_new_events:
  "backed_up_before_delete (removerSourceUserId r)
     (entity_row (removerSourceUserId r)
        (snd (pool_select ''user'' (removerSourceUserId r) (snd (verifySafeToRemove r w)))))
     False (new_events w (snd (run r w)))"
proof (cases "isSafe (fst (verifySafeToRemove r w))")
  case False
  then show ?thesis
    by (simp add: run_def split_beta)
next
  case safe: True
  show ?thesis
  proof (cases "fst (createUserBackup r (snd (verifySafeToRemove r w)))")
    case (Inl e)
    then show ?thesis
      using safe by (simp add: run_def split_beta createUserBackup_trace)
  next
    case (Inr b)
    then obtain row where b: "b = UserBackup (removerSourceUserId r) row"
      and row: "entity_row (removerSourceUserId r)
          (snd (pool_select ''user'' (removerSourceUserId r) (snd (verifySafeToRemove r w))))
        = Some row"
      using createUserBackup_result by blast
    show ?thesis
      using safe Inr row
      by (simp add: run_def split_beta Let_def b createUserBackup_trace removeUserRecord_trace
          verifyRemoval_trace saveRemovalLog_def split: sum.splits)
  qed
qed

text \<open>
  C6. In the events of any run, a \<open>DELETE\<close> is on table \<open>user\<close> for the source user
  and comes after the backup file has been written that holds exactly the row of that
  user: the first row with that \<open>id\<close> that table \<open>user\<close> holds when the \<open>SELECT\<close> of
  the backup step runs. When no row is found the backup step raises "user not found
  for backup", and whenever the backup step raises, \<open>run\<close> raises the same error and
  issues no write.
\<close>

theorem C6_backup_before_delete:
  "backed_up_before_delete (removerSourceUserId r)
     (entity_row (removerSourceUserId r)
        (snd (pool_select ''user'' (removerSourceUserId r) (snd (verifySafeToRemove r w)))))
     False (new_events w (snd (run r w)))
   \<and> (entity_row (removerSourceUserId r)
         (snd (pool_select ''user'' (removerSourceUserId r) (snd (verifySafeToRemove r w))))
        = Some row
      \<longrightarrow> row \<in> set (stored_rows ''user''
                      (snd (pool_select ''user'' (removerSourceUserId r) (snd (verifySafeToRemove r w)))))
          \<and> map_of row ''id'' = Some (removerSourceUserId r))
   \<and> (fst (pool_select ''user'' (removerSourceUserId r) (snd (verifySafeToRemove r w))) = Inr []
      \<longrightarrow> fst (createUserBackup r (snd (verifySafeToRemove r w)))
            = Inl (UserNotFoundForBackup (removerSourceUserId r)))
   \<and> (isSafe (fst (verifySafeToRemove r w))
        \<and> fst (createUserBackup r (snd (verifySafeToRemove r w))) = Inl e
      \<longrightarrow> fst (run r w) = Inl e
          \<and> filter is_write (trace (snd (run r w))) = filter is_write (trace w))"
proof -
  have 2: "fst (pool_select ''user'' (removerSourceUserId r) (snd (verifySafeToRemove r w))) = Inr []
      \<longrightarrow> fst (createUserBackup r (snd (verifySafeToRemove r w)))
            = Inl (UserNotFoundForBackup (removerSourceUserId r))"
    by (simp add: createUserBackup_def split_beta)
  have 3: "isSafe (fst (verifySafeToRemove r w))
        \<and> fst (createUserBackup r (snd (verifySafeToRemove r w))) = Inl e
      \<longrightarrow> fst (run r w) = Inl e
          \<and> filter is_write (trace (snd (run r w))) = filter is_write (trace w)"
    by (simp add: run_def split_beta createUserBackup_trace is_write_def)
  from run_new_events entity_row_stored 2 3 show ?thesis by blast
qed

lemma safety_store_without_user:
  "isSafe (fst (verifySafeToRemove default_remover store_without_user))"
  "fst (pool_select ''user'' 41 (snd (verifySafeToRemove default_remover store_without_user))) = Inr []"
  "removerSourceUserId default_remover = 41"
  by (simp_all add: remover_defs store_defs store_without_user_def Let_def)

lemma run_store_clean:
  "entity_row 41 (snd (pool_select ''user'' 41 (snd (verifySafeToRemove default_remover store_clean))))
     = Some user_41"
  "stored_rows ''user'' (snd (pool_select ''user'' 41 (snd (verifySafeToRemove default_remover store_clean))))
     = [user_41, [(''id'', 358)] ]"
  "trace (snd (run default_remover store_clean)) =
     [PoolExecute (CountWhere ''content'' ''user_id'' 41),
      PoolExecute (CountWhere ''media'' ''user_id'' 41),
      PoolExecute (SelectById ''user'' 41),
      WriteFile (UserBackup 41 user_41), GetConnection, BeginTransaction,
      PoolExecute (DeleteById ''user'' 41),
      PoolExecute (CountWhere ''user'' ''id'' 41), Commit,
      WriteFile RemovalLog, Release, PoolEnd]"
  by (simp_all add: remover_defs store_defs store_clean_def Let_def entity_row_def stored_rows_def)

text \<open>
  Two instances: a store where the user is deleted, after the backup of the stored
  row (a file holding another row with the same \<open>id\<close> would not do), and a store
  without the user, where the run stops at the backup step.
\<close>

theorem C6_backup_before_delete_witness:
  "entity_row 41 (snd (pool_select ''user'' 41 (snd (verifySafeToRemove default_remover store_clean))))
     = Some user_41
   \<and> user_41 \<in> set (stored_rows ''user''
        (snd (pool_select ''user'' 41 (snd (verifySafeToRemove default_remover store_clean)))))
   \<and> map_of user_41 ''id'' = Some 41
   \<and> new_events store_clean (snd (run default_remover store_clean)) =
       [PoolExecute (CountWhere ''content'' ''user_id'' 41),
        PoolExecute (CountWhere ''media'' ''user_id'' 41),
        PoolExecute (SelectById ''user'' 41),
        WriteFile (UserBackup 41 user_41), GetConnection, BeginTransaction,
        PoolExecute (DeleteById ''user'' 41),
        PoolExecute (CountWhere ''user'' ''id'' 41), Commit,
        WriteFile RemovalLog, Release, PoolEnd]
   \<and> backed_up_before_delete 41 (Some user_41) False
        (new_events store_clean (snd (run default_remover store_clean)))
   \<and> \<not> backed_up_before_delete 41 (Some [(''id'', 41)]) False
        (new_events store_clean (snd (run default_remover store_clean)))
   \<and> fst (pool_select ''user'' 41 (snd (verifySafeToRemove default_remover store_without_user))) = Inr []
   \<and> isSafe (fst (verifySafeToRemove default_remover store_without_user))
   \<and> fst (createUserBackup default_remover (snd (verifySafeToRemove default_remover store_without_user)))
       = Inl (UserNotFoundForBackup 41)
   \<and> fst (run default_remover store_without_user) = Inl (UserNotFoundForBackup 41)
   \<and> filter is_write (trace (snd (run default_remover store_without_user))) = []"
proof -
  have t: "trace store_without_user = []" and t': "trace store_clean = []"
    by (simp_all add: store_without_user_def store_clean_def)
  have n: "new_events store_clean (snd (run default_remover store_clean))
      = trace (snd (run default_remover store_clean))"
    by (simp add: new_events_def t')
  have fabricated: "\<not> backed_up_before_delete 41 (Some [(''id'', 41)]) False
        (new_events store_clean (snd (run default_remover store_clean)))"
    by (simp add: n run_store_clean(3) user_41_def)
  show ?thesis
    using C6_backup_before_delete [of default_remover store_clean user_41 "UserNotFoundForBackup 41"]
      C6_backup_before_delete [of default_remover store_without_user user_41 "UserNotFoundForBackup 41"]
      t fabricated
    by (simp add: safety_store_without_user run_store_clean n)
qed

text \<open>
  Where the total of the safety check is right: in a store used by this run alone, when
  every configured table exists and can be read and no table is configured twice, the
  total of the safety check is the number of rows that reference the source user,
  and it is the sum of the recorded values.
\<close>

lemma pool_count_quiet:
  "concurrent w = [] \<Longrightarrow> countable (tables w) (t, c) \<Longrightarrow>
     fst (pool_count t c u w) = Inr (references (tables w) t c u)"
  by (auto simp: pool_count_def countable_def references_def Let_def split: option.splits)

lemma assign_fresh: "k \<notin> fst ` set kvs \<Longrightarrow> assign k v kvs = kvs @ [(k, v)]"
  by (induction kvs) auto

lemma safetyLoop_counts:
  assumes "concurrent w = []" and "list_all (countable (tables w)) tabs"
    and "distinct (map fst sc @ map fst tabs)"
  shows "fst (safetyLoop u tabs sc tot w) =
     (sc @ map (\<lambda>tc. (fst tc, \<lparr>column = snd tc,
                               remainingReferences = int (references (tables w) (fst tc) (snd tc) u),
                               count_error = None\<rparr>)) tabs,
      tot + sum_list (map (\<lambda>tc. int (references (tables w) (fst tc) (snd tc) u)) tabs))"
  using assms
proof (induction tabs arbitrary: sc tot w)
  case Nil
  then show ?case by simp
next
  case (Cons tc tabs)
  obtain t c where tc: "tc = (t, c)" by (cases tc)
  let ?w1 = "snd (pool_count t c u w)"
  have cnt: "fst (pool_count t c u w) = Inr (references (tables w) t c u)"
    using Cons.prems by (simp add: tc pool_count_quiet)
  have q: "concurrent ?w1 = []" and ts: "tables ?w1 = tables w"
    using Cons.prems(1) by simp_all
  have fresh: "t \<notin> fst ` set sc"
    using Cons.prems(3) by (auto simp: tc)
  let ?e = "\<lparr>column = c, remainingReferences = int (references (tables w) t c u), count_error = None\<rparr>"
  have d: "distinct (map fst (sc @ [(t, ?e)]) @ map fst tabs)"
    using Cons.prems(3) by (auto simp: tc)
  have ca: "list_all (countable (tables ?w1)) tabs"
    using Cons.prems(2) ts by simp
  show ?case
    using Cons.IH [OF q ca d, of "tot + int (references (tables w) t c u)"] cnt
    using ts by (simp add: tc split_beta assign_fresh [OF fresh])
qed

lemma verifySafeToRemove_counts:
  assumes "concurrent w = []" and "list_all (countable (tables w)) (migrationTables r)"
    and "distinct (map fst (migrationTables r))"
  shows "totalReferences (fst (verifySafeToRemove r w))
       = sum_list (map (\<lambda>tc. int (references (tables w) (fst tc) (snd tc) (removerSourceUserId r)))
                    (migrationTables r))"
    and "totalReferences (fst (verifySafeToRemove r w))
       = sum_list (recorded_references (fst (verifySafeToRemove r w)))"
  using safetyLoop_counts [OF assms(1,2), of "[]" "removerSourceUserId r" 0] assms(3)
  by (simp_all add: verifySafeToRemove_def split_beta recorded_references_def comp_def)

lemma safety_store_count_fails:
  "fst (verifySafeToRemove default_remover store_count_fails) =
     \<lparr>isSafe = True, totalReferences = 0,
      safetyCheck =
        [(''content'', \<lparr>column = ''user_id'', remainingReferences = - 1,
                         count_error = Some (AccessDenied ''content'')\<rparr>),
         (''media'', \<lparr>column = ''user_id'', remainingReferences = 0, count_error = None\<rparr>)]\<rparr>"
  by (simp add: remover_defs store_defs store_count_fails_def Let_def)

lemma run_store_count_fails:
  "fst (run default_remover store_count_fails) =
     Inr \<lparr>safety = fst (verifySafeToRemove default_remover store_count_fails),
          backup = UserBackup 41 user_41,
          removal = \<lparr>removed = True, simulated = False, affectedRows = Some 1\<rparr>,
          verification = \<lparr>success = True, userStillExists = False\<rparr>\<rparr>"
  "tables (snd (run default_remover store_count_fails)) =
     [\<lparr>tname = ''user'', readable = True, writable = True, rows = [ [(''id'', 358)] ]\<rparr>,
      \<lparr>tname = ''content'', readable = False, writable = True,
         rows = [ [(''id'', 1), (''user_id'', 41)], [(''id'', 2), (''user_id'', 41)] ]\<rparr>,
      \<lparr>tname = ''media'', readable = True, writable = True, rows = []\<rparr>]"
  "trace (snd (run default_remover store_count_fails)) =
     [PoolExecute (CountWhere ''content'' ''user_id'' 41),
      PoolExecute (CountWhere ''media'' ''user_id'' 41),
      PoolExecute (SelectById ''user'' 41),
      WriteFile (UserBackup 41 user_41), GetConnection, BeginTransaction,
      PoolExecute (DeleteById ''user'' 41),
      PoolExecute (CountWhere ''user'' ''id'' 41), Commit,
      WriteFile RemovalLog, Release, PoolEnd]"
  by (simp_all add: remover_defs store_defs store_count_fails_def Let_def)

text \<open>
  C3, at a store where the count on \<open>content\<close> is refused while two of its rows
  still reference user 41: the check records \<open>-1\<close> for \<open>content\<close> and adds nothing to
  the total, so the total is 0, differs from the sum of the recorded values, and the
  removal is judged safe; \<open>run\<close> then deletes the user and the two references stay.
\<close>

theorem C3_failed_count_counted_as_zero:
  "isSafe (fst (verifySafeToRemove default_remover store_count_fails))
   \<and> totalReferences (fst (verifySafeToRemove default_remover store_count_fails)) = 0
   \<and> recorded_references (fst (verifySafeToRemove default_remover store_count_fails)) = [- 1, 0]
   \<and> sum_list (recorded_references (fst (verifySafeToRemove default_remover store_count_fails)))
       \<noteq> totalReferences (fst (verifySafeToRemove default_remover store_count_fails))
   \<and> references (tables store_count_fails) ''content'' ''user_id'' 41 = 2
   \<and> (\<exists>report. fst (run default_remover store_count_fails) = Inr report
         \<and> removed (removal report))
   \<and> references (tables (snd (run default_remover store_count_fails))) ''user'' ''id'' 41 = 0
   \<and> references (tables (snd (run default_remover store_count_fails))) ''content'' ''user_id'' 41 = 2"
proof -
  have "references (tables store_count_fails) ''content'' ''user_id'' 41 = 2"
    by (simp add: references_def find_table_def matching_def store_count_fails_def)
  then show ?thesis
    by (simp add: safety_store_count_fails run_store_count_fails recorded_references_def
        references_def find_table_def matching_def)
qed

text \<open>
  C2, at the store where the count on \<open>content\<close> is refused: two rows of the
  configured tables reference user 41 when the safety check runs, yet \<open>run\<close> raises
  no error, writes the backup, issues the \<open>DELETE\<close>, and the row of user 41 is gone
  afterwards. The gate reads the total of the safety check, and that total is 0 here.
\<close>

theorem C2_gate_open_with_references_left:
  "sum_list (map (\<lambda>tc. int (references (tables store_count_fails) (fst tc) (snd tc)
                               (removerSourceUserId default_remover)))
              (migrationTables default_remover)) = 2
   \<and> totalReferences (fst (verifySafeToRemove default_remover store_count_fails)) = 0
   \<and> (\<exists>report. fst (run default_remover store_count_fails) = Inr report)
   \<and> WriteFile (UserBackup 41 user_41) \<in> set (trace (snd (run default_remover store_count_fails)))
   \<and> PoolExecute (DeleteById ''user'' 41) \<in> set (trace (snd (run default_remover store_count_fails)))
   \<and> references (tables store_count_fails) ''user'' ''id'' 41 = 1
   \<and> references (tables (snd (run default_remover store_count_fails))) ''user'' ''id'' 41 = 0"
proof -
  have "sum_list (map (\<lambda>tc. int (references (tables store_count_fails) (fst tc) (snd tc)
                               (removerSourceUserId default_remover)))
              (migrationTables default_remover)) = 2"
    "references (tables store_count_fails) ''user'' ''id'' 41 = 1"
    by (simp_all add: references_def find_table_def matching_def store_count_fails_def
        default_remover_def new_UserRemover_def MIGRATION_TABLES_def or_default_def
        parseInt_unset user_41_def)
  then show ?thesis
    by (simp add: safety_store_count_fails run_store_count_fails references_def find_table_def
        matching_def)
qed

lemma run_store_reinserted:
  "fst (run default_remover store_reinserted) =
     Inr \<lparr>safety = fst (verifySafeToRemove default_remover store_reinserted),
          backup = UserBackup 41 user_41,
          removal = \<lparr>removed = True, simulated = False, affectedRows = Some 1\<rparr>,
          verification = \<lparr>success = False, userStillExists = True\<rparr>\<rparr>"
  "trace (snd (run default_remover store_reinserted)) =
     [PoolExecute (CountWhere ''content'' ''user_id'' 41),
      PoolExecute (CountWhere ''media'' ''user_id'' 41),
      PoolExecute (SelectById ''user'' 41),
      WriteFile (UserBackup 41 user_41), GetConnection, BeginTransaction,
      PoolExecute (DeleteById ''user'' 41),
      PoolExecute (CountWhere ''user'' ''id'' 41), Rollback,
      WriteFile RemovalLog, Release, PoolEnd]"
  "tables (snd (run default_remover store_reinserted)) =
     [\<lparr>tname = ''user'', readable = True, writable = True, rows = [ [(''id'', 358)], [(''id'', 41)] ]\<rparr>,
      \<lparr>tname = ''content'', readable = True, writable = True, rows = []\<rparr>,
      \<lparr>tname = ''media'', readable = True, writable = True, rows = []\<rparr>]"
  by (simp_all add: remover_defs store_defs store_reinserted_def Let_def)

text \<open>
  C4, at a store where another session inserts a user 41 again between the
  \<open>DELETE\<close> and the confirming count, in write mode: \<open>run\<close> calls \<open>rollback\<close> and
  then returns its report (no error is raised) with \<open>verification.success\<close> false; the
  row that was backed up is gone all the same, since the \<open>DELETE\<close> was not part of the
  transaction that was rolled back.
\<close>

theorem C4_unconfirmed_removal_returns_report:
  "(\<exists>report. fst (run default_remover store_reinserted) = Inr report
       \<and> \<not> success (verification report) \<and> userStillExists (verification report)
       \<and> removed (removal report))
   \<and> \<not> removerDryRun default_remover
   \<and> Rollback \<in> set (trace (snd (run default_remover store_reinserted)))
   \<and> Commit \<notin> set (trace (snd (run default_remover store_reinserted)))
   \<and> user_41 \<in> set (matching ''id'' 41 (concat (map rows (tables store_reinserted))))
   \<and> user_41 \<notin> set (concat (map rows (tables (snd (run default_remover store_reinserted)))))"
proof -
  have "user_41 \<in> set (matching ''id'' 41 (concat (map rows (tables store_reinserted))))"
    by (simp add: store_reinserted_def matching_def user_41_def)
  moreover have "\<not> removerDryRun default_remover"
    by (simp add: default_remover_def new_UserRemover_def)
  moreover have "user_41 \<notin> set (concat (map rows (tables (snd (run default_remover store_reinserted)))))"
    by (simp add: run_store_reinserted user_41_def)
  ultimately show ?thesis
    by (simp add: run_store_reinserted)
qed


section \<open>Properties of the migrator\<close>

lemmas migrator_defs = executeMigration_def validatePrerequisites_def findTablesWithUserId_def
  countRecordsByTable_def migrateTable_def
  object_prototype_names_def object_entries_def is_array_index_def is_digit_def digit_val_def
  digits_value_def find_userIdColumn_def ends_with_def
  getConnection_def beginTransaction_def commit_def rollback_def release_def
  default_migrator_def default_analyzer_def new_UserMigrator_def or_default_def parseInt_unset
  user_41_def

lemma only_reads_refl [simp]: "only_reads w w"
  by (simp add: only_reads_def)

lemma only_reads_issue [simp]:
  "only_reads w0 w \<Longrightarrow> \<not> is_write (PoolExecute s) \<Longrightarrow> only_reads w0 (issue s w)"
  by (simp add: only_reads_def is_transaction_call_def)

lemma only_reads_emit [simp]:
  "only_reads w0 w \<Longrightarrow> \<not> is_write ev \<Longrightarrow> \<not> is_transaction_call ev \<Longrightarrow> only_reads w0 (emit ev w)"
  by (simp add: only_reads_def)

lemma not_write [simp]:
  "\<not> is_write (PoolExecute (CountWhere n c v))" "\<not> is_write (PoolExecute (SelectById n v))"
  "\<not> is_write (PoolExecute SelectUserIdColumns)" "\<not> is_write GetConnection"
  "\<not> is_write Release" "\<not> is_write BeginTransaction" "\<not> is_write Commit"
  "\<not> is_write Rollback" "\<not> is_write PoolEnd" "\<not> is_write (WriteFile f)"
  "is_write (PoolExecute (UpdateWhere n c new old))" "is_write (PoolExecute (DeleteById n v))"
  by (simp_all add: is_write_def)

lemma not_transaction_call [simp]:
  "\<not> is_transaction_call (PoolExecute s)" "\<not> is_transaction_call GetConnection"
  "\<not> is_transaction_call Release" "\<not> is_transaction_call PoolEnd"
  "\<not> is_transaction_call (WriteFile f)"
  "is_transaction_call BeginTransaction" "is_transaction_call Commit"
  "is_transaction_call Rollback"
  by (simp_all add: is_transaction_call_def)

lemma only_reads_validatePrerequisites [simp]:
  "only_reads w0 w \<Longrightarrow> only_reads w0 (snd (validatePrerequisites m w))"
  by (simp add: validatePrerequisites_def split_beta split: sum.splits list.splits)

lemma only_reads_findTablesWithUserId [simp]:
  "only_reads w0 w \<Longrightarrow> only_reads w0 (snd (findTablesWithUserId w))"
  by (simp add: findTablesWithUserId_def Let_def)

lemma only_reads_countLoop [simp]:
  "only_reads w0 w \<Longrightarrow> only_reads w0 (snd (countLoop u es rc w))"
proof (induction es arbitrary: rc w)
  case Nil
  then show ?case by simp
next
  case (Cons tc es)
  obtain t cols where tc: "tc = (t, cols)" by (cases tc)
  show ?case
    using Cons.prems
    by (simp add: tc split_beta Cons.IH split: option.splits sum.splits)
qed

lemma only_reads_connection [simp]:
  "only_reads w0 w \<Longrightarrow> only_reads w0 (getConnection w)"
  "only_reads w0 w \<Longrightarrow> only_reads w0 (release w)"
  by (simp_all add: getConnection_def release_def)

lemma only_reads_migrateTable [simp]:
  "dryRun m \<Longrightarrow> only_reads w0 w \<Longrightarrow> only_reads w0 (snd (migrateTable m t c w))"
  by (simp add: migrateTable_def split_beta split: sum.splits)

lemma only_reads_migrateLoop [simp]:
  "dryRun m \<Longrightarrow> only_reads w0 w \<Longrightarrow> only_reads w0 (snd (migrateLoop m rc es acc tot w))"
proof (induction es arbitrary: acc tot w)
  case Nil
  then show ?case by simp
next
  case (Cons tc es)
  obtain t cols where tc: "tc = (t, cols)" by (cases tc)
  show ?case
    using Cons.prems
    by (simp add: tc split_beta Cons.IH split: option.splits sum.splits)
qed

lemma only_reads_executeMigration:
  "dryRun m \<Longrightarrow> only_reads w (snd (executeMigration m a w))"
  by (simp add: executeMigration_def countRecordsByTable_def split_beta Let_def
      split: sum.splits)

lemma list_all_assign:
  "P (k, v) \<Longrightarrow> list_all P kvs \<Longrightarrow> list_all P (assign k v kvs)"
  by (induction kvs) auto

lemma migrateTable_dry_result:
  assumes "dryRun m" and "concurrent w = []" and "fst (migrateTable m t c w) = Inr res"
  shows "migrated res = 0 \<and> skipped res = references (tables w) t c (sourceUserId m)"
  using assms
  by (auto simp: migrateTable_def pool_count_def references_def Let_def split_beta
      split: option.splits if_splits)

lemma simulatedI:
  "migrated res = 0 \<Longrightarrow> skipped res = references ts t c u \<Longrightarrow> (t, c) \<in> set bs
     \<Longrightarrow> simulation_result ts u bs (t, res)"
  by (force simp: simulation_result_def list_ex_iff)

lemma bindings_Cons:
  "bindings ((t, cols) # es) =
     (case find_userIdColumn cols of None \<Rightarrow> [] | Some c \<Rightarrow> [(t, c)]) @ bindings es"
  by (simp add: bindings_def split: option.splits)

lemma migrateLoop_dry_results:
  assumes "dryRun m" and "concurrent w = []"
    and "list_all (simulation_result (tables w) (sourceUserId m) bs) acc"
    and "set (bindings es) \<subseteq> set bs"
    and "fst (migrateLoop m rc es acc tot w) = Inr (res, tot')"
  shows "list_all (simulation_result (tables w) (sourceUserId m) bs) res \<and> tot' = tot"
  using assms
proof (induction es arbitrary: acc tot w)
  case Nil
  then show ?case by simp
next
  case (Cons tc es)
  obtain t cols where tc: "tc = (t, cols)" by (cases tc)
  show ?case
  proof (cases "find_userIdColumn cols")
    case None
    then show ?thesis
      using Cons.prems Cons.IH [of w acc tot] by (simp add: tc bindings_Cons)
  next
    case (Some c)
    have sub: "set (bindings es) \<subseteq> set bs" and mem: "(t, c) \<in> set bs"
      using Cons.prems(4) by (simp_all add: tc bindings_Cons Some)
    show ?thesis
    proof (cases "case map_of rc t of None \<Rightarrow> False | Some n \<Rightarrow> n > 0")
      case False
      then show ?thesis
        using Cons.prems Cons.IH [of w acc tot] sub by (simp add: tc Some)
    next
      case True
      show ?thesis
      proof (cases "fst (migrateTable m t c w)")
        case (Inl e)
        then show ?thesis
          using Cons.prems(5) True by (simp add: tc Some split_beta)
      next
        case (Inr r)
        let ?w1 = "snd (migrateTable m t c w)"
        have ro: "only_reads w ?w1"
          using Cons.prems(1) by simp
        then have q: "concurrent ?w1 = []" and ts: "tables ?w1 = tables w"
          using Cons.prems(2) by (simp_all add: only_reads_def)
        have r: "migrated r = 0" "skipped r = references (tables w) t c (sourceUserId m)"
          using migrateTable_dry_result [OF Cons.prems(1) Cons.prems(2) Inr] by simp_all
        have acc': "list_all (simulation_result (tables ?w1) (sourceUserId m) bs) (assign t r acc)"
          using Cons.prems(3) r mem by (simp add: ts list_all_assign simulatedI)
        have run: "fst (migrateLoop m rc es (assign t r acc) (tot + migrated r) ?w1) = Inr (res, tot')"
          using Cons.prems(5) True Inr by (simp add: tc Some split_beta)
        show ?thesis
          using Cons.IH [OF Cons.prems(1) q acc' sub run] r by (simp add: ts)
      qed
    qed
  qed
qed

lemma only_reads_before_loop:
  "only_reads w
     (getConnection (snd (countRecordsByTable a tm (snd (findTablesWithUserId (snd (validatePrerequisites m w)))))))"
  by (simp add: countRecordsByTable_def)

lemma executeMigration_dry_report:
  assumes "dryRun m" and "concurrent w = []" and "fst (executeMigration m a w) = Inr report"
  shows "totalMigrated report = 0
     \<and> list_all (simulation_result (tables w) (sourceUserId m) (userIdBindings w)) (migrationResults report)"
proof -
  let ?w1 = "snd (validatePrerequisites m w)"
  let ?w2 = "snd (findTablesWithUserId ?w1)"
  obtain tm where tm: "fst (findTablesWithUserId ?w1) = Inr tm"
    using assms(3)
    by (cases "fst (findTablesWithUserId ?w1)")
       (auto simp: executeMigration_def split_beta Let_def split: sum.splits)
  let ?w3 = "snd (countRecordsByTable a tm ?w2)"
  let ?rc = "fst (countRecordsByTable a tm ?w2)"
  let ?w5 = "getConnection ?w3"
  have ro: "only_reads w ?w5"
    by (rule only_reads_before_loop)
  then have q: "concurrent ?w5 = []" and ts: "tables ?w3 = tables w"
    using assms(2) by (simp_all add: only_reads_def)
  have "only_reads w ?w1" by simp
  then have cat: "catalog ?w1 = catalog w"
    by (simp add: only_reads_def)
  have b: "userIdBindings w = bindings (object_entries tm)"
    using tm by (simp add: userIdBindings_def findTablesWithUserId_def Let_def cat [symmetric])
  obtain res tot where loop: "fst (migrateLoop m ?rc (object_entries tm) [] 0 ?w5) = Inr (res, tot)"
    and rep: "totalMigrated report = tot" "migrationResults report = res"
    using assms(1,3) tm
    by (cases "fst (migrateLoop m ?rc (object_entries tm) [] 0 ?w5)")
       (auto simp: executeMigration_def split_beta Let_def split: sum.splits)
  have "list_all (simulation_result (tables ?w5) (sourceUserId m) (userIdBindings w)) res \<and> tot = 0"
    by (rule migrateLoop_dry_results [OF assms(1) q _ _ loop]) (simp_all add: b)
  then show ?thesis
    using ts by (simp add: rep)
qed

text \<open>
  C7. A dry run of the migration adds no write statement and no transaction call to
  the trace and leaves the transaction state as it was. In a store used by this run
  alone every table, and so the reference count of every binding, is the same after
  the run as before, and when the run returns its report, \<open>totalMigrated\<close> is 0 and
  every per-table result has \<open>migrated = 0\<close> and, as \<open>skipped\<close>, the number of rows of
  that table that reference the source user.
\<close>

theorem C7_dry_run_reads_only:
  assumes "dryRun m"
  shows "filter is_write (trace (snd (executeMigration m a w))) = filter is_write (trace w)
     \<and> filter is_transaction_call (trace (snd (executeMigration m a w)))
         = filter is_transaction_call (trace w)
     \<and> tx_open (snd (executeMigration m a w)) = tx_open w
     \<and> (concurrent w = [] \<longrightarrow>
          tables (snd (executeMigration m a w)) = tables w
          \<and> (\<forall>n c v. references (tables (snd (executeMigration m a w))) n c v
                       = references (tables w) n c v)
          \<and> (\<forall>report. fst (executeMigration m a w) = Inr report \<longrightarrow>
                totalMigrated report = 0
                \<and> list_all (simulation_result (tables w) (sourceUserId m) (userIdBindings w))
                     (migrationResults report)))"
  using only_reads_executeMigration [OF assms, where a = a and w = w]
    executeMigration_dry_report [OF assms, where a = a and w = w]
  by (simp add: only_reads_def)

lemma dry_run_store_to_migrate:
  "dryRun dry_run_migrator" "sourceUserId dry_run_migrator = 41"
  "fst (executeMigration dry_run_migrator default_analyzer store_to_migrate) =
     Inr \<lparr>reportSourceUserId = 41, reportTargetUserId = 358, totalMigrated = 0,
          migrationResults =
            [(''content'', \<lparr>migrated = 0, skipped = 2, existingRecords = None\<rparr>),
             (''media'', \<lparr>migrated = 0, skipped = 1, existingRecords = None\<rparr>)],
          reportDryRun = True\<rparr>"
  by (simp_all add: migrator_defs store_defs store_to_migrate_def Let_def dry_run_migrator_def)

theorem C7_dry_run_reads_only_witness:
  "dryRun dry_run_migrator
   \<and> concurrent store_to_migrate = []
   \<and> (\<exists>report. fst (executeMigration dry_run_migrator default_analyzer store_to_migrate) = Inr report
         \<and> map (\<lambda>tr. (fst tr, migrated (snd tr), skipped (snd tr))) (migrationResults report)
             = [(''content'', 0, 2), (''media'', 0, 1)]
         \<and> list_all (simulation_result (tables store_to_migrate) 41 (userIdBindings store_to_migrate))
              (migrationResults report))
   \<and> references (tables store_to_migrate) ''content'' ''user_id'' 41 = 2
   \<and> references (tables store_to_migrate) ''media'' ''user_id'' 41 = 1
   \<and> filter is_write (trace (snd (executeMigration dry_run_migrator default_analyzer store_to_migrate))) = []
   \<and> filter is_transaction_call
        (trace (snd (executeMigration dry_run_migrator default_analyzer store_to_migrate))) = []
   \<and> tables (snd (executeMigration dry_run_migrator default_analyzer store_to_migrate))
       = tables store_to_migrate"
proof -
  have q: "concurrent store_to_migrate = []" and t: "trace store_to_migrate = []"
    by (simp_all add: store_to_migrate_def)
  have r: "references (tables store_to_migrate) ''content'' ''user_id'' 41 = 2"
    "references (tables store_to_migrate) ''media'' ''user_id'' 41 = 1"
    by (simp_all add: references_def find_table_def matching_def store_to_migrate_def)
  show ?thesis
    using C7_dry_run_reads_only [OF dry_run_store_to_migrate(1), of default_analyzer store_to_migrate]
      q t r
    by (simp add: dry_run_store_to_migrate)
qed

lemma migrateTable_transaction [simp]:
  "filter is_transaction_call (trace (snd (migrateTable m t c w)))
     = filter is_transaction_call (trace w)"
  "tx_open (snd (migrateTable m t c w)) = tx_open w"
  by (simp_all add: migrateTable_def split_beta split: sum.splits)



lemma tx_open_calls [simp]:
  "tx_open (getConnection w) = tx_open w" "tx_open (release w) = tx_open w"
  "tx_open (beginTransaction w)" "\<not> tx_open (commit w)" "\<not> tx_open (rollback w)"
  by (simp_all add: getConnection_def release_def beginTransaction_def commit_def rollback_def)


lemma run_store_to_migrate:
  "fst (executeMigration default_migrator default_analyzer store_to_migrate) =
     Inr \<lparr>reportSourceUserId = 41, reportTargetUserId = 358, totalMigrated = 3,
          migrationResults =
            [(''content'', \<lparr>migrated = 2, skipped = 0, existingRecords = Some 0\<rparr>),
             (''media'', \<lparr>migrated = 1, skipped = 0, existingRecords = Some 0\<rparr>)],
          reportDryRun = False\<rparr>"
  "trace (snd (executeMigration default_migrator default_analyzer store_to_migrate)) =
     [PoolExecute (SelectById ''users'' 41), PoolExecute (SelectById ''users'' 358),
      PoolExecute SelectUserIdColumns,
      PoolExecute (CountWhere ''content'' ''user_id'' 41),
      PoolExecute (CountWhere ''media'' ''user_id'' 41), GetConnection, BeginTransaction,
      PoolExecute (CountWhere ''content'' ''user_id'' 41),
      PoolExecute (CountWhere ''content'' ''user_id'' 358),
      PoolExecute (UpdateWhere ''content'' ''user_id'' 358 41),
      PoolExecute (CountWhere ''media'' ''user_id'' 41),
      PoolExecute (CountWhere ''media'' ''user_id'' 358),
      PoolExecute (UpdateWhere ''media'' ''user_id'' 358 41), Commit, Release]"
  by (simp_all add: migrator_defs store_defs store_to_migrate_def Let_def)













lemma run_store_media_refused:
  "fst (executeMigration default_migrator default_analyzer store_media_refused)
     = Inl (AccessDenied ''media'')"
  "trace (snd (executeMigration default_migrator default_analyzer store_media_refused)) =
     [PoolExecute (SelectById ''users'' 41), PoolExecute (SelectById ''users'' 358),
      PoolExecute SelectUserIdColumns,
      PoolExecute (CountWhere ''content'' ''user_id'' 41),
      PoolExecute (CountWhere ''media'' ''user_id'' 41), GetConnection, BeginTransaction,
      PoolExecute (CountWhere ''content'' ''user_id'' 41),
      PoolExecute (CountWhere ''content'' ''user_id'' 358),
      PoolExecute (UpdateWhere ''content'' ''user_id'' 358 41),
      PoolExecute (CountWhere ''media'' ''user_id'' 41),
      PoolExecute (CountWhere ''media'' ''user_id'' 358),
      PoolExecute (UpdateWhere ''media'' ''user_id'' 358 41), Rollback, Rollback, Release]"
  "tables (snd (executeMigration default_migrator default_analyzer store_media_refused)) =
     [\<lparr>tname = ''users'', readable = True, writable = True, rows = [user_41, [(''id'', 358)] ]\<rparr>,
      \<lparr>tname = ''content'', readable = True, writable = True,
         rows = [ [(''id'', 1), (''user_id'', 358)], [(''id'', 2), (''user_id'', 358)],
                 [(''id'', 3), (''user_id'', 7)] ]\<rparr>,
      \<lparr>tname = ''media'', readable = True, writable = False,
         rows = [ [(''id'', 1), (''user_id'', 41)] ]\<rparr>]"
  by (simp_all add: migrator_defs store_defs store_media_refused_def Let_def)

text \<open>
  C1, at a store where the rewrite of \<open>media\<close> is refused after the rewrite of
  \<open>content\<close> went through, in write mode: the error of the failed statement reaches
  the caller as it is and \<open>rollback\<close> is called, but the two rows of \<open>content\<close> stay
  rewritten, because every statement ran through \<open>pool.execute\<close> and none on the
  connection whose transaction is rolled back.
\<close>

theorem C1_rollback_keeps_earlier_rewrites:
  "\<not> dryRun default_migrator
   \<and> fst (executeMigration default_migrator default_analyzer store_media_refused)
       = Inl (AccessDenied ''media'')
   \<and> Rollback \<in> set (trace (snd (executeMigration default_migrator default_analyzer store_media_refused)))
   \<and> \<not> tx_open (snd (executeMigration default_migrator default_analyzer store_media_refused))
   \<and> references (tables store_media_refused) ''content'' ''user_id'' 41 = 2
   \<and> references (tables (snd (executeMigration default_migrator default_analyzer store_media_refused)))
        ''content'' ''user_id'' 41 = 0
   \<and> references (tables store_media_refused) ''content'' ''user_id'' 358 = 0
   \<and> references (tables (snd (executeMigration default_migrator default_analyzer store_media_refused)))
        ''content'' ''user_id'' 358 = 2
   \<and> references (tables (snd (executeMigration default_migrator default_analyzer store_media_refused)))
        ''media'' ''user_id'' 41 = 1"
proof -
  have "\<not> dryRun default_migrator"
    by (simp add: default_migrator_def new_UserMigrator_def)
  moreover have "references (tables store_media_refused) ''content'' ''user_id'' 41 = 2"
    "references (tables store_media_refused) ''content'' ''user_id'' 358 = 0"
    by (simp_all add: references_def find_table_def matching_def store_media_refused_def)
  moreover have "\<not> tx_open (snd (executeMigration default_migrator default_analyzer store_media_refused))"
    by (simp add: migrator_defs store_defs store_media_refused_def Let_def)
  ultimately show ?thesis
    by (simp add: run_store_media_refused references_def find_table_def matching_def)
qed

text \<open>
  C5, with source and target both 358 (\<open>SOURCE_USER_ID=358\<close>, \<open>TARGET_USER_ID\<close>
  unset), in write mode: the constructor raises nothing, \<open>validatePrerequisites\<close>
  finds user 358 twice, and the run opens a transaction, issues the rewrite of user
  358 to user 358, commits and returns its report. test.js (\<open>testConfiguration\<close>)
  throws for the same configuration, "source and target user ids cannot be equal";
  \<open>UserMigrator\<close> has no such check.
\<close>

theorem C5_identical_ids_accepted:
  "sourceUserId migrator_358_to_358 = 358
   \<and> targetUserId migrator_358_to_358 = 358
   \<and> \<not> dryRun migrator_358_to_358
   \<and> fst (executeMigration migrator_358_to_358 analyzer_358 store_migrated) =
       Inr \<lparr>reportSourceUserId = 358, reportTargetUserId = 358, totalMigrated = 2,
            migrationResults =
              [(''content'', \<lparr>migrated = 2, skipped = 0, existingRecords = Some 2\<rparr>)],
            reportDryRun = False\<rparr>
   \<and> trace (snd (executeMigration migrator_358_to_358 analyzer_358 store_migrated)) =
       [PoolExecute (SelectById ''users'' 358), PoolExecute (SelectById ''users'' 358),
        PoolExecute SelectUserIdColumns,
        PoolExecute (CountWhere ''content'' ''user_id'' 358),
        PoolExecute (CountWhere ''media'' ''user_id'' 358), GetConnection, BeginTransaction,
        PoolExecute (CountWhere ''content'' ''user_id'' 358),
        PoolExecute (CountWhere ''content'' ''user_id'' 358),
        PoolExecute (UpdateWhere ''content'' ''user_id'' 358 358), Commit, Release]"
  by (simp add: migrator_defs store_defs store_migrated_def Let_def
      migrator_358_to_358_def analyzer_358_def parseInt_def parseInt_string_def is_ws_def is_ws_bytes_def)

text \<open>
  The other case of C5, a missing identifier, is no error by design: with
  \<open>SOURCE_USER_ID\<close> and \<open>TARGET_USER_ID\<close> unset the migrator is built with 41 and
  358 (see C10), and the run rewrites rows.
\<close>

lemma missing_identifiers_take_defaults:
  "sourceUserId (new_UserMigrator (\<lambda>_. None)) = 41
   \<and> targetUserId (new_UserMigrator (\<lambda>_. None)) = 358
   \<and> (\<exists>report. fst (executeMigration (new_UserMigrator (\<lambda>_. None)) default_analyzer store_to_migrate)
         = Inr report)
   \<and> PoolExecute (UpdateWhere ''content'' ''user_id'' 358 41)
       \<in> set (trace (snd (executeMigration (new_UserMigrator (\<lambda>_. None)) default_analyzer store_to_migrate)))"
  using run_store_to_migrate
  by (simp add: default_migrator_def [symmetric])
     (simp add: default_migrator_def new_UserMigrator_def or_default_def parseInt_unset)

text \<open>
  What \<open>validatePrerequisites\<close> does check: a source or a target user without a row
  in \<open>users\<close>, or a read of \<open>users\<close> that fails, raises; and whenever it raises,
  \<open>executeMigration\<close> raises the same error having done nothing but the reads of
  \<open>users\<close>.
\<close>

lemma validatePrerequisites_raises:
  "fst (pool_select ''users'' (sourceUserId m) w) = Inl e
     \<Longrightarrow> fst (validatePrerequisites m w) = Inl e"
  "fst (pool_select ''users'' (sourceUserId m) w) = Inr []
     \<Longrightarrow> fst (validatePrerequisites m w) = Inl (SourceUserNotFound (sourceUserId m))"
  "fst (pool_select ''users'' (sourceUserId m) w) = Inr (s # ss)
     \<Longrightarrow> fst (pool_select ''users'' (targetUserId m) (snd (pool_select ''users'' (sourceUserId m) w)))
          = Inl e
     \<Longrightarrow> fst (validatePrerequisites m w) = Inl e"
  "fst (pool_select ''users'' (sourceUserId m) w) = Inr (s # ss)
     \<Longrightarrow> fst (pool_select ''users'' (targetUserId m) (snd (pool_select ''users'' (sourceUserId m) w)))
          = Inr []
     \<Longrightarrow> fst (validatePrerequisites m w) = Inl (TargetUserNotFound (targetUserId m))"
  "fst (pool_select ''users'' (sourceUserId m) w) = Inr (s # ss)
     \<Longrightarrow> fst (pool_select ''users'' (targetUserId m) (snd (pool_select ''users'' (sourceUserId m) w)))
          = Inr (t # ts)
     \<Longrightarrow> fst (validatePrerequisites m w) = Inr (s, t)"
  by (simp_all add: validatePrerequisites_def split_beta del: snd_pool_select)

lemma validatePrerequisites_events:
  "\<exists>evs. trace (snd (validatePrerequisites m w)) = trace w @ evs \<and> list_all is_select evs"
  by (auto simp: validatePrerequisites_def split_beta is_select_def split: sum.splits list.splits)

lemma failed_prerequisites_stop_the_run:
  assumes "fst (validatePrerequisites m w) = Inl e"
  shows "fst (executeMigration m a w) = Inl e"
    and "list_all is_select (new_events w (snd (executeMigration m a w)))"
    and "concurrent w = [] \<Longrightarrow> tables (snd (executeMigration m a w)) = tables w"
proof -
  have s: "snd (executeMigration m a w) = snd (validatePrerequisites m w)"
    and f: "fst (executeMigration m a w) = Inl e"
    using assms by (simp_all add: executeMigration_def split_beta)
  obtain evs where evs: "trace (snd (validatePrerequisites m w)) = trace w @ evs" "list_all is_select evs"
    using validatePrerequisites_events by blast
  have "only_reads w (snd (validatePrerequisites m w))"
    by simp
  then have t: "concurrent w = [] \<Longrightarrow> tables (snd (validatePrerequisites m w)) = tables w"
    by (simp add: only_reads_def)
  show "fst (executeMigration m a w) = Inl e"
    by (rule f)
  show "list_all is_select (new_events w (snd (executeMigration m a w)))"
    using evs by (simp add: s)
  show "concurrent w = [] \<Longrightarrow> tables (snd (executeMigration m a w)) = tables w"
    using t by (simp add: s)
qed

lemma missing_users_at_store_without_target:
  "fst (executeMigration default_migrator default_analyzer store_without_target)
     = Inl (TargetUserNotFound 358)"
  "fst (executeMigration migrator_from_7 default_analyzer store_without_target)
     = Inl (SourceUserNotFound 7)"
  by (simp_all add: migrator_defs store_defs store_without_target_def Let_def
      migrator_from_7_def parseInt_def parseInt_string_def is_ws_def is_ws_bytes_def)

text \<open>
  \<open>verifyMigration\<close>, the check of migrate.js that corresponds to the safety check of
  the remover, ends with the error when a count fails.
\<close>

lemma verifyMigration_stops_at_failed_count:
  "fst (verifyMigration default_migrator store_count_fails) = Inl (AccessDenied ''content'')"
  by (simp add: verifyMigration_def migrator_defs store_defs store_count_fails_def Let_def)

lemma totalSourceRemaining_sum:
  "totalSourceRemaining rs = sum_list (map (\<lambda>r. sourceRemaining (snd r)) rs)"
proof -
  have "foldl (\<lambda>s result. s + sourceRemaining result) k xs = k + sum_list (map sourceRemaining xs)"
    for k and xs :: "verification_entry list"
    by (induction xs arbitrary: k) simp_all
  then show ?thesis
    by (simp add: totalSourceRemaining_def comp_def)
qed

end
